theory Spec2Isabelle
  imports Complex_Main
begin

section \<open>JavaScript values and strings\<close>

text \<open>
  The services are JavaScript. A JavaScript string is modelled as an Isabelle
  \<^typ>\<open>string\<close>, one \<^typ>\<open>char\<close> per code unit; the queries and payload texts
  range over the strings whose code units are below 256. Numbers that are counts,
  milliseconds or attempt numbers are \<^typ>\<open>nat\<close> or \<^typ>\<open>int\<close>; relevance scores are
  \<^typ>\<open>rat\<close>, compared as the decimal fractions they are written as.
\<close>

datatype jsval = JUndefined | JNull | JBool bool | JNum int | JStr string

type_synonym jsobj = "(string \<times> jsval) list"

text \<open>An exception value: \<open>error.message\<close> and, for an HTTP client error that
  carries a response, \<open>error.response.status\<close>.\<close>

datatype js_error = JsError string "nat option"

fun err_message :: "js_error \<Rightarrow> string" where
  "err_message (JsError m s) = m"

text \<open>\<open>obj[k] = v\<close> and the spread \<open>{...obj, k: v}\<close>: an existing key keeps its
  place, a new key goes last.\<close>

fun obj_set :: "string \<Rightarrow> jsval \<Rightarrow> jsobj \<Rightarrow> jsobj" where
  "obj_set k v [] = [(k, v)]"
| "obj_set k v ((k', v') # kvs) =
     (if k' = k then (k, v) # kvs else (k', v') # obj_set k v kvs)"

fun obj_get :: "jsobj \<Rightarrow> string \<Rightarrow> jsval" where
  "obj_get [] k = JUndefined"
| "obj_get ((k', v') # kvs) k = (if k' = k then v' else obj_get kvs k)"

text \<open>\<open>String.prototype.trim\<close>: the white space and line terminators below 256.\<close>

definition isWhiteSpace :: "char \<Rightarrow> bool" where
  "isWhiteSpace c \<longleftrightarrow>
     c = CHR 0x09 \<or> c = CHR 0x0A \<or> c = CHR 0x0B \<or> c = CHR 0x0C \<or> c = CHR 0x0D \<or>
     c = CHR 0x20 \<or> c = CHR 0xA0"

definition trim :: "string \<Rightarrow> string" where
  "trim s = rev (dropWhile isWhiteSpace (rev (dropWhile isWhiteSpace s)))"

text \<open>\<open>String.prototype.toLowerCase\<close> on code units below 256.\<close>

definition toLowerChar :: "char \<Rightarrow> char" where
  "toLowerChar c =
     (let n = (of_char c :: nat) in
      if (65 \<le> n \<and> n \<le> 90) \<or> (192 \<le> n \<and> n \<le> 222 \<and> n \<noteq> 215)
      then char_of (n + 32) else c)"

definition toLowerCase :: "string \<Rightarrow> string" where
  "toLowerCase s = map toLowerChar s"

text \<open>\<open>s.startsWith(p)\<close> and \<open>s.includes(p)\<close>.\<close>

fun startsWith :: "string \<Rightarrow> string \<Rightarrow> bool" where
  "startsWith s [] = True"
| "startsWith [] (p # ps) = False"
| "startsWith (c # cs) (p # ps) = (c = p \<and> startsWith cs ps)"

fun str_includes :: "string \<Rightarrow> string \<Rightarrow> bool" where
  "str_includes [] p = (p = [])"
| "str_includes (c # cs) p = (startsWith (c # cs) p \<or> str_includes cs p)"

text \<open>\<open>s.substring(0, n)\<close>.\<close>

definition substring0 :: "nat \<Rightarrow> string \<Rightarrow> string" where
  "substring0 n s = take n s"

text \<open>\<open>a || b\<close> on a possibly missing string: a missing or empty \<open>a\<close> is falsy.\<close>

fun or_else :: "string option \<Rightarrow> string \<Rightarrow> string" where
  "or_else None d = d"
| "or_else (Some s) d = (if s = [] then d else s)"

fun truthy :: "string option \<Rightarrow> bool" where
  "truthy None = False"
| "truthy (Some s) = (s \<noteq> [])"

text \<open>A missing value interpolated into a template literal prints as \<open>undefined\<close>.\<close>

fun interpolate :: "string option \<Rightarrow> string" where
  "interpolate None = ''undefined''"
| "interpolate (Some s) = s"

text \<open>Decimal printing of an index.\<close>

definition digitChar :: "nat \<Rightarrow> char" where
  "digitChar d = char_of (48 + d)"

function showNat :: "nat \<Rightarrow> string" where
  "showNat n = (if n < 10 then [digitChar n] else showNat (n div 10) @ [digitChar (n mod 10)])"
  by pat_completeness auto
termination
  by (relation "measure id") auto

text \<open>
  \<open>template.replace(pattern, replacement)\<close> with a string pattern: only the first
  occurrence is replaced, and the replacement text is expanded first: \<open>$$\<close> is a
  dollar sign, \<open>$&\<close> the matched text, \<open>$`\<close> the text before the match and \<open>$'\<close> the
  text after it (there are no capture groups, so \<open>$1\<close> stays as it is).
\<close>

fun splitAtFirst :: "string \<Rightarrow> string \<Rightarrow> (string \<times> string) option" where
  "splitAtFirst p [] = (if p = [] then Some ([], []) else None)"
| "splitAtFirst p (c # cs) =
     (if startsWith (c # cs) p then Some ([], drop (length p) (c # cs))
      else (case splitAtFirst p cs of
              None \<Rightarrow> None
            | Some (b, a) \<Rightarrow> Some (c # b, a)))"

fun getSubstitution :: "string \<Rightarrow> string \<Rightarrow> string \<Rightarrow> string \<Rightarrow> string" where
  "getSubstitution m b a [] = []"
| "getSubstitution m b a [c] = [c]"
| "getSubstitution m b a (c # d # r) =
     (if c = CHR ''$'' \<and> d = CHR ''$'' then CHR ''$'' # getSubstitution m b a r
      else if c = CHR ''$'' \<and> d = CHR ''&'' then m @ getSubstitution m b a r
      else if c = CHR ''$'' \<and> d = CHR 0x60 then b @ getSubstitution m b a r
      else if c = CHR ''$'' \<and> d = CHR 0x27 then a @ getSubstitution m b a r
      else c # getSubstitution m b a (d # r))"

definition replaceFirst :: "string \<Rightarrow> string \<Rightarrow> string \<Rightarrow> string" where
  "replaceFirst s p r =
     (case splitAtFirst p s of
        None \<Rightarrow> s
      | Some (b, a) \<Rightarrow> b @ getSubstitution p b a r @ a)"

text \<open>\<open>parts.join(sep)\<close>.\<close>

fun join :: "string \<Rightarrow> string list \<Rightarrow> string" where
  "join sep [] = []"
| "join sep [x] = x"
| "join sep (x # y # ys) = x @ sep @ join sep (y # ys)"

section \<open>Query validation (ragService)\<close>

datatype validation = Invalid string | Valid string

text \<open>\<open>validateQuery\<close>: a value that is falsy or not a string is refused, then the
  trimmed text must have between 3 and 1000 characters.\<close>

fun validateQuery :: "jsval \<Rightarrow> validation" where
  "validateQuery (JStr q) =
     (if q = [] then Invalid ''Query must be a non-empty string''
      else let cleanQuery = trim q in
        if length cleanQuery < 3 then Invalid ''Query is too short (minimum 3 characters)''
        else if length cleanQuery > 1000 then Invalid ''Query is too long (maximum 1000 characters)''
        else Valid cleanQuery)"
| "validateQuery v = Invalid ''Query must be a non-empty string''"

section \<open>Generation with retries (ragService, generateWithGemini)\<close>

text \<open>What one call of the model gives: a text, or a failure.\<close>

datatype gemini_reply = GeminiText string | GeminiFailure js_error

text \<open>What the services do that can be observed from outside: requests, with their
  attempt number, and waits in milliseconds.\<close>

datatype io_event = EmbedRequest nat | GenerateRequest nat | Delay nat

fun isEmbedRequest :: "io_event \<Rightarrow> bool" where
  "isEmbedRequest (EmbedRequest n) = True"
| "isEmbedRequest e = False"

text \<open>The body of the \<open>try\<close> block: a text of more than 10 characters is returned,
  any other text raises.\<close>

fun geminiAttempt :: "gemini_reply \<Rightarrow> js_error + string" where
  "geminiAttempt (GeminiText t) =
     (if t \<noteq> [] \<and> length t > 10 then Inr t
      else Inl (JsError ''Empty or invalid response from Gemini'' None))"
| "geminiAttempt (GeminiFailure e) = Inl e"

definition retryable :: "js_error \<Rightarrow> bool" where
  "retryable e \<longleftrightarrow>
     str_includes (err_message e) ''503'' \<or> str_includes (err_message e) ''overloaded'' \<or>
     str_includes (err_message e) ''quota'' \<or> str_includes (err_message e) ''rate limit''"

text \<open>
  The \<open>for\<close> loop of \<open>generateWithGemini\<close>, from attempt \<open>attempt\<close> on. The result is
  what the function returns (\<open>None\<close> is \<open>undefined\<close>, when the loop ends without
  returning) or throws, and the requests and waits it made.
  In the \<open>catch\<close> block a retryable failure before the last attempt waits
  \<open>retryDelay * attempt\<close> and continues; then the error is thrown when
  \<open>attempt === maxRetries\<close>; otherwise the block ends and the loop goes on to the
  next attempt.
\<close>

function geminiLoop ::
  "(nat \<Rightarrow> gemini_reply) \<Rightarrow> nat \<Rightarrow> nat \<Rightarrow> nat \<Rightarrow> (js_error + string option) \<times> io_event list" where
  "geminiLoop reply maxRetries retryDelay attempt =
     (if attempt \<le> maxRetries then
        (case geminiAttempt (reply attempt) of
           Inr t \<Rightarrow> (Inr (Some t), [GenerateRequest attempt])
         | Inl e \<Rightarrow>
             if retryable e \<and> attempt < maxRetries then
               (case geminiLoop reply maxRetries retryDelay (Suc attempt) of
                  (r, tr) \<Rightarrow> (r, GenerateRequest attempt # Delay (retryDelay * attempt) # tr))
             else if attempt = maxRetries then (Inl e, [GenerateRequest attempt])
             else
               (case geminiLoop reply maxRetries retryDelay (Suc attempt) of
                  (r, tr) \<Rightarrow> (r, GenerateRequest attempt # tr)))
      else (Inr None, []))"
  by pat_completeness auto
termination
  by (relation "measure (\<lambda>(reply, maxRetries, retryDelay, attempt). Suc maxRetries - attempt)") auto

text \<open>\<open>generateWithGemini(prompt, maxRetries = 3, retryDelay = 2000)\<close>; the model
  answers a prompt, attempt by attempt.\<close>

definition generateWithGemini ::
  "(string \<Rightarrow> nat \<Rightarrow> gemini_reply) \<Rightarrow> string \<Rightarrow> nat \<Rightarrow> nat \<Rightarrow> (js_error + string option) \<times> io_event list" where
  "generateWithGemini gemini prompt maxRetries retryDelay =
     geminiLoop (gemini prompt) maxRetries retryDelay 1"

section \<open>Embedding client (jinaService)\<close>

text \<open>What the embedding provider answers to one request: a failure of the HTTP
  client, a body without \<open>data.data[0]\<close>, or a first item whose \<open>embedding\<close> field
  is missing, an array of numbers, or some other value.\<close>

datatype emb_field = EmbMissing | EmbArray "rat list" | EmbNonArray

datatype jina_reply = JinaFailure js_error | JinaNoData | JinaData emb_field

text \<open>What \<open>generateEmbedding\<close> can return: \<open>undefined\<close>, the provider's array, the
  provider's value that is no array, or the mock embedding of a text (768 numbers
  computed from a hash of the text).\<close>

datatype embedding = EUndefined | Vector "rat list" | NonArray | MockEmbedding string

definition generateMockEmbedding :: "string \<Rightarrow> embedding" where
  "generateMockEmbedding text = MockEmbedding text"

text \<open>The inner \<open>try\<close> block: reading \<open>embedding.length\<close> of a missing field raises.\<close>

fun jinaAttempt :: "jina_reply \<Rightarrow> js_error + embedding" where
  "jinaAttempt (JinaFailure e) = Inl e"
| "jinaAttempt JinaNoData = Inl (JsError ''Invalid response format from Jina API'' None)"
| "jinaAttempt (JinaData EmbMissing) =
     Inl (JsError ''Cannot read properties of undefined (reading 'length')'' None)"
| "jinaAttempt (JinaData (EmbArray v)) = Inr (Vector v)"
| "jinaAttempt (JinaData EmbNonArray) = Inr NonArray"

text \<open>\<open>error.response?.status && error.response.status < 500\<close>.\<close>

fun clientError :: "js_error \<Rightarrow> bool" where
  "clientError (JsError m None) = False"
| "clientError (JsError m (Some s)) = (s \<noteq> 0 \<and> s < 500)"

text \<open>The \<open>for\<close> loop of \<open>generateEmbedding\<close>, from attempt \<open>attempt\<close> on: the inner
  \<open>catch\<close> rethrows on the last attempt or on a status below 500, and otherwise
  waits \<open>1000 * attempt\<close> milliseconds.\<close>

function embedLoop ::
  "(nat \<Rightarrow> jina_reply) \<Rightarrow> nat \<Rightarrow> nat \<Rightarrow> (js_error + embedding) \<times> io_event list" where
  "embedLoop reply maxRetries attempt =
     (if attempt \<le> maxRetries then
        (case jinaAttempt (reply attempt) of
           Inr v \<Rightarrow> (Inr v, [EmbedRequest attempt])
         | Inl e \<Rightarrow>
             if attempt = maxRetries \<or> clientError e then (Inl e, [EmbedRequest attempt])
             else
               (case embedLoop reply maxRetries (Suc attempt) of
                  (r, tr) \<Rightarrow> (r, EmbedRequest attempt # Delay (1000 * attempt) # tr)))
      else (Inr EUndefined, []))"
  by pat_completeness auto
termination
  by (relation "measure (\<lambda>(reply, maxRetries, attempt). Suc maxRetries - attempt)") auto

section \<open>Vector retriever (qdrantService)\<close>

record payload =
  p_title :: "string option"
  p_source :: "string option"
  p_url :: "string option"
  p_content :: "string option"
  p_snippet :: "string option"
  p_publishedAt :: "string option"
  p_category :: "string option"

text \<open>A point as the index returns it, and a candidate as the orchestrator's functions
  receive it: an object whose \<open>payload\<close> may be missing (\<open>searchVectors\<close> always fills it
  in, \<open>generateRAGResponse\<close> reads it as \<open>doc.payload || {}\<close>).\<close>

record raw_hit =
  h_id :: string
  h_score :: rat
  h_payload :: "payload option"

record candidate =
  c_id :: string
  c_score :: rat
  c_payload :: "payload option"

record search_payload =
  sp_vector :: embedding
  sp_limit :: nat
  sp_score_threshold :: rat
  sp_with_payload :: bool
  sp_with_vector :: bool

text \<open>What the index answers: a failure of the HTTP client, a body without a
  \<open>result\<close>, a \<open>result\<close> that is no array, or the array of points.\<close>

datatype qdrant_reply =
  QdrantFailure js_error | QdrantNoResult | QdrantNotArray | QdrantResult "raw_hit list"

definition emptyPayload :: payload where
  "emptyPayload = \<lparr>p_title = None, p_source = None, p_url = None, p_content = None,
     p_snippet = None, p_publishedAt = None, p_category = None\<rparr>"

text \<open>\<open>doc.payload || {}\<close>.\<close>

definition payloadOrEmpty :: "candidate \<Rightarrow> payload" where
  "payloadOrEmpty doc = (case c_payload doc of None \<Rightarrow> emptyPayload | Some p \<Rightarrow> p)"

text \<open>The five mock articles of \<open>getMockSearchResults\<close>. Two characters of its texts
  are not ASCII: the u with diaeresis is the code unit 0xFC; the dash of the fourth
  title, above 0xFF, is written as its three UTF-8 bytes.\<close>

definition getMockSearchResults :: "candidate list" where
  "getMockSearchResults =
    [\<lparr>c_id = ''mock-1'', c_score = 85 / 100,
      c_payload = Some \<lparr>
        p_title = Some ''Flying cars crash into each other at Chinese air show'',
        p_source = Some ''BBC News'',
        p_url = Some ''https://www.bbc.com/news/technology-flying-cars'',
        p_content = Some (''Two flying cars collided during a demonstration at an air show in China, raising concerns about the safety and regulation of flying car technology. '' @
          ''The incident occurred during a rehearsal for an air show, with both vehicles crashing to the ground. '' @
          ''No injuries were reported, but the accident has prompted calls for stricter safety protocols in the emerging flying car industry.''),
        p_snippet = Some ''Two flying cars collided during a demonstration at an air show in China...'',
        p_publishedAt = Some ''2025-09-17T10:30:00Z'',
        p_category = Some ''technology''\<rparr>\<rparr>,
     \<lparr>c_id = ''mock-2'', c_score = 82 / 100,
      c_payload = Some \<lparr>
        p_title = Some (''US tennis star sorr'' @ ''y for offensive comments on Chinese food''),
        p_source = Some ''BBC News'',
        p_url = Some ''https://www.bbc.com/sport/tennis-controversy'',
        p_content = Some (''A prominent US tennis player has issued a public apology after making controversial comments about Chinese food during a press conference. '' @
          ''The remarks, which were widely criticized as culturally insensitive, sparked outrage on social media and prompted calls for the player to be sanctioned.''),
        p_snippet = Some ''A prominent US tennis player has issued a public apology after making controversial comments...'',
        p_publishedAt = Some ''2025-09-17T14:20:00Z'',
        p_category = Some ''sports''\<rparr>\<rparr>,
     \<lparr>c_id = ''mock-3'', c_score = 79 / 100,
      c_payload = Some \<lparr>
        p_title = Some ''Madeleine McCann suspect freed from German prison'',
        p_source = Some ''BBC News'',
        p_url = Some ''https://www.bbc.com/news/uk-madeleine-mccann'',
        p_content = Some (''Christian Br'' @ [CHR 0xFC] @ ''ckner, the prime suspect in the Madeleine McCann disappearance case, has been released from a German prison after serving his sentence for an unrelated rape conviction. '' @
          ''His release has reignited public interest in the long-unsolved case.''),
        p_snippet = Some (''Christian Br'' @ [CHR 0xFC] @ ''ckner, the prime suspect in the Madeleine McCann disappearance case...''),
        p_publishedAt = Some ''2025-09-17T16:45:00Z'',
        p_category = Some ''crime''\<rparr>\<rparr>,
     \<lparr>c_id = ''mock-4'', c_score = 76 / 100,
      c_payload = Some \<lparr>
        p_title = Some (''AI can forecast your future health '' @ [CHR 0xE2, CHR 0x80, CHR 0x93] @ '' just like the weather''),
        p_source = Some ''BBC News'',
        p_url = Some ''https://www.bbc.com/news/technology-ai-health'',
        p_content = Some (''Researchers have developed an AI system that can predict future health conditions with accuracy similar to weather forecasting. '' @
          ''The system analyzes various health indicators and lifestyle factors to provide personalized health predictions.''),
        p_snippet = Some ''Researchers have developed an AI system that can predict future health conditions...'',
        p_publishedAt = Some ''2025-09-17T12:15:00Z'',
        p_category = Some ''technology''\<rparr>\<rparr>,
     \<lparr>c_id = ''mock-5'', c_score = 73 / 100,
      c_payload = Some \<lparr>
        p_title = Some ''Search for ancient Egyptian gold bracelet missing from Cairo museum'',
        p_source = Some ''BBC News'',
        p_url = Some ''https://www.bbc.com/news/world-middle-east-egypt'',
        p_content = Some (''Egyptian authorities have launched an investigation after a 3,000-year-old gold bracelet went missing from the Egyptian Museum in Cairo. '' @
          ''The artifact, dating back to the reign of King Amenemhope, vanished from the museum's restoration laboratory.''),
        p_snippet = Some ''Egyptian authorities have launched an investigation after a 3,000-year-old gold bracelet...'',
        p_publishedAt = Some ''2025-09-17T09:30:00Z'',
        p_category = Some ''culture''\<rparr>\<rparr>]"

section \<open>The outside world of one orchestration call\<close>

text \<open>The environment variables the services read, the three external services
  (each a function of the request and, where the client retries, of the attempt
  number), and the clock: \<open>Date.now()\<close> at the start and at the end of the call and
  the ISO timestamp of the result.\<close>

record world =
  JINA_API_KEY :: "string option"
  QDRANT_URL :: "string option"
  QDRANT_API_KEY :: "string option"
  jina :: "string \<Rightarrow> nat \<Rightarrow> jina_reply"
  qdrant :: "search_payload \<Rightarrow> qdrant_reply"
  gemini :: "string \<Rightarrow> nat \<Rightarrow> gemini_reply"
  startTime :: int
  endTime :: int
  isoNow :: string

text \<open>\<open>generateEmbedding(text, maxRetries = 2)\<close>: the \<open>try\<close> block, then the function
  with its \<open>catch\<close>, which returns the mock embedding.\<close>

definition generateEmbeddingTry ::
  "world \<Rightarrow> string \<Rightarrow> nat \<Rightarrow> (js_error + embedding) \<times> io_event list" where
  "generateEmbeddingTry w text maxRetries =
     (if \<not> truthy (JINA_API_KEY w) then (Inr (generateMockEmbedding text), [])
      else embedLoop (jina w (substring0 8192 text)) maxRetries 1)"

definition generateEmbedding :: "world \<Rightarrow> string \<Rightarrow> nat \<Rightarrow> embedding \<times> io_event list" where
  "generateEmbedding w text maxRetries =
     (case generateEmbeddingTry w text maxRetries of
        (Inr v, tr) \<Rightarrow> (v, tr)
      | (Inl e, tr) \<Rightarrow> (generateMockEmbedding text, tr))"

text \<open>\<open>QDRANT_CONFIG.url\<close>: the environment variable or the placeholder address.\<close>

definition qdrantUrl :: "world \<Rightarrow> string" where
  "qdrantUrl w = or_else (QDRANT_URL w) ''https://your-qdrant-cluster.qdrant.tech''"

text \<open>\<open>searchVectors(queryVector, limit = 5, scoreThreshold = 0.7)\<close>: the \<open>try\<close> block,
  then the function with its \<open>catch\<close>, which returns the mock results.\<close>

definition searchVectorsTry ::
  "world \<Rightarrow> embedding \<Rightarrow> nat \<Rightarrow> rat \<Rightarrow> js_error + candidate list" where
  "searchVectorsTry w queryVector limit scoreThreshold =
     (if qdrantUrl w = [] then Inr getMockSearchResults
      else if \<not> truthy (QDRANT_API_KEY w) then Inr getMockSearchResults
      else
        (case qdrant w \<lparr>sp_vector = queryVector, sp_limit = limit,
                sp_score_threshold = scoreThreshold, sp_with_payload = True,
                sp_with_vector = False\<rparr> of
           QdrantFailure e \<Rightarrow> Inl e
         | QdrantNoResult \<Rightarrow> Inr []
         | QdrantNotArray \<Rightarrow> Inl (JsError ''response.data.result.map is not a function'' None)
         | QdrantResult hits \<Rightarrow>
             Inr (map (\<lambda>result. \<lparr>c_id = h_id result, c_score = h_score result,
                        c_payload = Some (case h_payload result of
                                            None \<Rightarrow> emptyPayload | Some p \<Rightarrow> p)\<rparr>)
                   hits)))"

definition searchVectors :: "world \<Rightarrow> embedding \<Rightarrow> nat \<Rightarrow> rat \<Rightarrow> candidate list" where
  "searchVectors w queryVector limit scoreThreshold =
     (case searchVectorsTry w queryVector limit scoreThreshold of
        Inr results \<Rightarrow> results
      | Inl e \<Rightarrow> getMockSearchResults)"

section \<open>Fallback generator (ragService, generateFallbackResponse)\<close>

record fallback_template =
  t_keywords :: "string list"
  t_template :: string

text \<open>The texts of the three topic templates and of the generic one, with the query
  interpolated; the placeholder \<open>{sources}\<close> is replaced afterwards.\<close>

definition newsTemplate :: "string \<Rightarrow> string" where
  \<open>newsTemplate query =
     ''I apologize, but I'm currently experiencing high load and cannot generate a detailed response. However, based on your query about "'' @
     query @ ''", here are some relevant sources I found:\<newline>'' @
     ''\<newline>'' @
     ''{sources}'' @
     ''\<newline>'' @
     ''\<newline>'' @
     ''For the most up-to-date information, I recommend checking these news sources directly. Please try your question again in a moment when the system load is lighter.''\<close>

definition technologyTemplate :: "string \<Rightarrow> string" where
  \<open>technologyTemplate query =
     ''I'm currently experiencing high demand and cannot provide a full analysis. Your question about "'' @
     query @ ''" relates to technology news. Here are relevant sources I found:\<newline>'' @
     ''\<newline>'' @
     ''{sources}'' @
     ''\<newline>'' @
     ''\<newline>'' @
     ''These sources contain the latest information on your topic. Please try again shortly for a more detailed AI-generated response.''\<close>

definition businessTemplate :: "string \<Rightarrow> string" where
  \<open>businessTemplate query =
     ''Due to high system load, I cannot provide a detailed business analysis right now. However, I found relevant sources for your query "'' @
     query @ ''":\<newline>'' @
     ''\<newline>'' @
     ''{sources}'' @
     ''\<newline>'' @
     ''\<newline>'' @
     ''For current business and financial news, please check these sources directly. Try asking again in a few moments.''\<close>

definition genericTemplate :: "string \<Rightarrow> string" where
  \<open>genericTemplate query =
     ''I apologize, but due to high system demand, I cannot generate a detailed response for "'' @
     query @ ''" right now. Here are relevant sources I found:\<newline>'' @
     ''\<newline>'' @
     ''{sources}'' @
     ''\<newline>'' @
     ''\<newline>'' @
     ''Please check these sources for information and try your question again shortly.''\<close>

definition fallbackTemplates :: "string \<Rightarrow> fallback_template list" where
  "fallbackTemplates query =
    [\<lparr>t_keywords = [''yesterday'', ''recent'', ''latest'', ''today'', ''news''],
      t_template = newsTemplate query\<rparr>,
     \<lparr>t_keywords = [''technology'', ''tech'', ''ai'', ''artificial intelligence''],
      t_template = technologyTemplate query\<rparr>,
     \<lparr>t_keywords = [''business'', ''market'', ''finance'', ''economic''],
      t_template = businessTemplate query\<rparr>]"

definition noSourcesText :: string where
  "noSourcesText =
     ''No specific sources found, but you can check major news outlets for the latest information.''"

definition matchesQuery :: "string \<Rightarrow> fallback_template \<Rightarrow> bool" where
  "matchesQuery query t \<longleftrightarrow>
     list_ex (\<lambda>keyword. str_includes (toLowerCase query) (toLowerCase keyword)) (t_keywords t)"

definition selectedTemplate :: "string \<Rightarrow> string" where
  "selectedTemplate query =
     (case find (matchesQuery query) (fallbackTemplates query) of
        Some t \<Rightarrow> t_template t
      | None \<Rightarrow> genericTemplate query)"

text \<open>
  The callback of \<open>documents.map\<close>. It reads \<open>doc.payload.title\<close> without a guard: on a
  document whose \<open>payload\<close> is missing the read raises.
\<close>

definition sourceLine :: "nat \<times> candidate \<Rightarrow> js_error + string" where
  "sourceLine = (\<lambda>(index, doc).
     case c_payload doc of
       None \<Rightarrow> Inl (JsError ''Cannot read properties of undefined (reading 'title')'' None)
     | Some payload \<Rightarrow>
         Inr (showNat (index + 1) @ ''. '' @ interpolate (p_title payload) @
              '' ('' @ interpolate (p_source payload) @ '')\<newline>   '' @
              or_else (p_snippet payload) ''No preview available''))"

text \<open>\<open>documents.map(callback)\<close>: the first document on which the callback raises
  ends the call.\<close>

fun sourceLines :: "(nat \<times> candidate) list \<Rightarrow> js_error + string list" where
  "sourceLines [] = Inr []"
| "sourceLines (d # ds) =
     (case sourceLine d of
        Inl e \<Rightarrow> Inl e
      | Inr l \<Rightarrow> (case sourceLines ds of Inl e \<Rightarrow> Inl e | Inr ls \<Rightarrow> Inr (l # ls)))"

definition sourcesText :: "candidate list \<Rightarrow> js_error + string" where
  "sourcesText documents =
     (if documents \<noteq> [] then
        (case sourceLines (enumerate 0 documents) of
           Inl e \<Rightarrow> Inl e
         | Inr ls \<Rightarrow> Inr (join ''\<newline>\<newline>'' ls))
      else Inr noSourcesText)"

definition generateFallbackResponse :: "string \<Rightarrow> candidate list \<Rightarrow> js_error + string" where
  "generateFallbackResponse query documents =
     (case sourcesText documents of
        Inl e \<Rightarrow> Inl e
      | Inr text \<Rightarrow> Inr (replaceFirst (selectedTemplate query) ''{sources}'' text))"

section \<open>Orchestrator (ragService, generateRAGResponse)\<close>

record source =
  s_title :: string
  s_source :: string
  s_url :: string
  s_snippet :: string
  s_relevanceScore :: rat
  s_publishedAt :: "string option"

record rag_result =
  answer :: jsval
  sources :: "source list"
  metadata :: jsobj

text \<open>The relevance filter applied to what the retriever returned.\<close>

definition relevantDocsOf :: "candidate list \<Rightarrow> candidate list" where
  "relevantDocsOf searchResults =
     (if searchResults \<noteq> [] then filter (\<lambda>result. c_score result > 7 / 10) searchResults
      else [])"

text \<open>The entry pushed to \<open>sources\<close> and the text block returned for one document.\<close>

definition toSource :: "candidate \<Rightarrow> source" where
  "toSource doc =
     (let payload = payloadOrEmpty doc in
      \<lparr>s_title = or_else (p_title payload) ''Untitled'',
       s_source = or_else (p_source payload) ''Unknown Source'',
       s_url = or_else (p_url payload) ''#'',
       s_snippet = or_else (p_snippet payload)
                     (or_else (map_option (substring0 150) (p_content payload)) []),
       s_relevanceScore = c_score doc,
       s_publishedAt = (if truthy (p_publishedAt payload) then p_publishedAt payload else None)\<rparr>)"

definition contextBlock :: "nat \<times> candidate \<Rightarrow> string" where
  "contextBlock = (\<lambda>(index, doc).
     let payload = payloadOrEmpty doc in
     ''Source '' @ showNat (index + 1) @ '': '' @ or_else (p_title payload) ''Untitled'' @ ''\<newline>'' @
     ''Content: '' @ or_else (p_content payload) (or_else (p_snippet payload) ''No content available'') @ ''\<newline>'' @
     ''Published: '' @ or_else (p_publishedAt payload) ''Unknown date'')"

definition contextOf :: "candidate list \<Rightarrow> string" where
  "contextOf relevantDocs =
     (if relevantDocs \<noteq> [] then join ''\<newline>\<newline>'' (map contextBlock (enumerate 0 relevantDocs))
      else [])"

definition systemPrompt :: "string \<Rightarrow> string \<Rightarrow> string" where
  "systemPrompt context query =
     ''You are a helpful news assistant that provides accurate, up-to-date information based on reliable sources. \<newline>'' @
     ''    \<newline>'' @
     ''Instructions:\<newline>'' @
     ''- Answer the user's question using only the provided context\<newline>'' @
     ''- Be informative and comprehensive\<newline>'' @
     ''- If the context doesn't fully answer the question, acknowledge this\<newline>'' @
     ''- Maintain a professional, journalistic tone\<newline>'' @
     ''- Focus on factual information\<newline>'' @
     ''- Don't make up information not in the sources\<newline>'' @
     ''\<newline>'' @
     ''Context from news sources:\<newline>'' @
     (if context \<noteq> [] then context else ''No specific recent news found for this query.'') @ ''\<newline>'' @
     ''\<newline>'' @
     ''User Question: '' @ query @ ''\<newline>'' @
     ''\<newline>'' @
     ''Please provide a helpful response based on the available information:''"

text \<open>The inner \<open>try\<close>/\<open>catch\<close>: the model's answer, or the fallback template; an
  error raised while the \<open>catch\<close> block builds the fallback leaves the block.\<close>

definition generateAnswer :: "world \<Rightarrow> string \<Rightarrow> candidate list \<Rightarrow> js_error + rag_result" where
  "generateAnswer w vquery relevantDocs =
     (let srcs = map toSource relevantDocs;
          prompt = systemPrompt (contextOf relevantDocs) vquery;
          processingTime = endTime w - startTime w
      in case fst (generateWithGemini (gemini w) prompt 3 2000) of
           Inr aiResponse \<Rightarrow>
             Inr \<lparr>answer = (case aiResponse of Some t \<Rightarrow> JStr t | None \<Rightarrow> JUndefined),
                  sources = srcs,
                  metadata =
                    [(''processingTime'', JNum processingTime),
                     (''documentsFound'', JNum (int (length relevantDocs))),
                     (''sourcesUsed'', JNum (int (length srcs))),
                     (''queryLength'', JNum (int (length vquery))),
                     (''modelUsed'', JStr ''gemini-1.5-flash''),
                     (''timestamp'', JStr (isoNow w))]\<rparr>
         | Inl geminiError \<Rightarrow>
             (case generateFallbackResponse vquery relevantDocs of
                Inl error \<Rightarrow> Inl error
              | Inr fallbackResponse \<Rightarrow>
                  Inr \<lparr>answer = JStr fallbackResponse,
                       sources = srcs,
                       metadata =
                         [(''processingTime'', JNum processingTime),
                          (''documentsFound'', JNum (int (length relevantDocs))),
                          (''sourcesUsed'', JNum (int (length srcs))),
                          (''modelUsed'', JStr ''fallback-template''),
                          (''error'', JStr ''AI model temporarily unavailable''),
                          (''timestamp'', JStr (isoNow w))]\<rparr>))"

text \<open>\<open>!embedding || !Array.isArray(embedding)\<close>.\<close>

fun isArray :: "embedding \<Rightarrow> bool" where
  "isArray (Vector v) = True"
| "isArray (MockEmbedding t) = True"
| "isArray EUndefined = False"
| "isArray NonArray = False"

text \<open>The outer \<open>try\<close> block, for a query that is a string.\<close>

definition ragTry :: "world \<Rightarrow> string \<Rightarrow> js_error + rag_result" where
  "ragTry w query =
     (case validateQuery (JStr query) of
        Invalid err \<Rightarrow> Inl (JsError (''Invalid query: '' @ err) None)
      | Valid vquery \<Rightarrow>
          let embedding = fst (generateEmbedding w vquery 2) in
          if \<not> isArray embedding then Inl (JsError ''Failed to generate embedding for query'' None)
          else
            let searchResults = searchVectors w embedding 5 (7 / 10);
                relevantDocs = relevantDocsOf searchResults
            in generateAnswer w vquery relevantDocs)"

text \<open>The result built by the outer \<open>catch\<close>. Its three bullet characters, above
  0xFF, are written as their UTF-8 bytes.\<close>

definition errorFallback :: "world \<Rightarrow> string \<Rightarrow> js_error \<Rightarrow> rag_result" where
  \<open>errorFallback w query error =
     \<lparr>answer = JStr (
        ''I apologize, but I'm currently experiencing technical difficulties and cannot provide a detailed response to your question "'' @
        query @ ''". This might be due to:\<newline>'' @
        ''\<newline>'' @
        [CHR 0xE2, CHR 0x80, CHR 0xA2] @ '' High system load on AI services\<newline>'' @
        [CHR 0xE2, CHR 0x80, CHR 0xA2] @ '' Temporary API limitations  \<newline>'' @
        [CHR 0xE2, CHR 0x80, CHR 0xA2] @ '' Network connectivity issues\<newline>'' @
        ''\<newline>'' @
        ''Please try:\<newline>'' @
        ''1. Asking a simpler or different question\<newline>'' @
        ''2. Trying again in a few minutes\<newline>'' @
        ''3. Checking major news websites directly for the latest information\<newline>'' @
        ''\<newline>'' @
        ''Thank you for your patience!''),
      sources = [],
      metadata =
        [(''processingTime'', JNum (endTime w - startTime w)),
         (''error'', JStr (err_message error)),
         (''modelUsed'', JStr ''error-fallback''),
         (''timestamp'', JStr (isoNow w))]\<rparr>\<close>

text \<open>\<open>generateRAGResponse(query, sessionId)\<close>. A query that is no string has no
  \<open>substring\<close> method: the first statement of the \<open>try\<close> block raises, and so does
  the logging call that opens the \<open>catch\<close> block, whose error leaves the function.\<close>

fun generateRAGResponse :: "world \<Rightarrow> jsval \<Rightarrow> string \<Rightarrow> js_error + rag_result" where
  "generateRAGResponse w (JStr query) sessionId =
     (case ragTry w query of
        Inr result \<Rightarrow> Inr result
      | Inl error \<Rightarrow> Inr (errorFallback w query error))"
| "generateRAGResponse w JUndefined sessionId =
     Inl (JsError ''Cannot read properties of undefined (reading 'substring')'' None)"
| "generateRAGResponse w JNull sessionId =
     Inl (JsError ''Cannot read properties of null (reading 'substring')'' None)"
| "generateRAGResponse w v sessionId = Inl (JsError ''query.substring is not a function'' None)"

section \<open>Session store (config/redis)\<close>

record message =
  m_id :: string
  m_type :: string
  m_content :: jsval
  m_timestamp :: string
  m_sources :: "source list option"
  m_metadata :: "jsobj option"
  m_isError :: bool

text \<open>The object that \<open>saveSession\<close> serialises. \<open>JSON.stringify\<close> followed by
  \<open>JSON.parse\<close> gives these fields back, so the stored value is the record itself.\<close>

record session_data =
  sd_sessionId :: string
  sd_messages :: "message list"
  sd_lastUpdated :: string
  sd_messageCount :: nat

datatype redis_cmd =
  GET string | SETEX string int session_data | DEL string | EXPIRE string int

text \<open>
  The cache server as the client sees it: whether commands get through, each key
  with its value and the seconds it has left, and the commands received so far.
  \<open>REDIS_TTL\<close> is \<open>parseInt(process.env.REDIS_TTL)\<close>, \<open>None\<close> when that is \<open>NaN\<close>.
\<close>

record redis =
  REDIS_TTL :: "int option"
  up :: bool
  kv :: "string \<rightharpoonup> session_data \<times> nat"
  received :: "redis_cmd list"

text \<open>The server's commands. \<open>SETEX\<close> refuses an expiry that is not positive;
  \<open>EXPIRE\<close> with one deletes the key; both answer for a key that exists.\<close>

definition connectionError :: js_error where
  "connectionError = JsError ''Connection is closed.'' None"

definition redis_setex :: "redis \<Rightarrow> string \<Rightarrow> int \<Rightarrow> session_data \<Rightarrow> (js_error + unit) \<times> redis" where
  "redis_setex r key ttl v =
     (if \<not> up r then (Inl connectionError, r)
      else if ttl \<le> 0 then
        (Inl (JsError ''ERR invalid expire time in 'setex' command'' None),
         r\<lparr>received := received r @ [SETEX key ttl v]\<rparr>)
      else
        (Inr (), r\<lparr>kv := (kv r)(key \<mapsto> (v, nat ttl)),
                     received := received r @ [SETEX key ttl v]\<rparr>))"

definition redis_get :: "redis \<Rightarrow> string \<Rightarrow> (js_error + session_data option) \<times> redis" where
  "redis_get r key =
     (if \<not> up r then (Inl connectionError, r)
      else (Inr (map_option fst (kv r key)), r\<lparr>received := received r @ [GET key]\<rparr>))"

definition redis_del :: "redis \<Rightarrow> string \<Rightarrow> (js_error + nat) \<times> redis" where
  "redis_del r key =
     (if \<not> up r then (Inl connectionError, r)
      else (Inr (if kv r key = None then 0 else 1),
            r\<lparr>kv := (kv r)(key := None), received := received r @ [DEL key]\<rparr>))"

definition redis_expire :: "redis \<Rightarrow> string \<Rightarrow> int \<Rightarrow> (js_error + nat) \<times> redis" where
  "redis_expire r key ttl =
     (if \<not> up r then (Inl connectionError, r)
      else
        (case kv r key of
           None \<Rightarrow> (Inr 0, r\<lparr>received := received r @ [EXPIRE key ttl]\<rparr>)
         | Some (v, t) \<Rightarrow>
             (Inr 1, r\<lparr>kv := (if ttl \<le> 0 then (kv r)(key := None) else (kv r)(key \<mapsto> (v, nat ttl))),
                       received := received r @ [EXPIRE key ttl]\<rparr>)))"

text \<open>Seconds going by: a key whose time is used up is gone.\<close>

definition elapse :: "nat \<Rightarrow> redis \<Rightarrow> redis" where
  "elapse n r =
     r\<lparr>kv := (\<lambda>key. case kv r key of
                       None \<Rightarrow> None
                     | Some (v, t) \<Rightarrow> if t \<le> n then None else Some (v, t - n))\<rparr>"

text \<open>The module's client variable: \<open>None\<close> until \<open>initializeRedis\<close> has run, and
  then \<open>getRedisClient\<close> throws.\<close>

type_synonym redis_client = "redis option"

definition notInitialized :: js_error where
  "notInitialized = JsError ''Redis client not initialized. Call initializeRedis() first.'' None"

text \<open>\<open>parseInt(process.env.REDIS_TTL) || 3600\<close>.\<close>

definition configuredTTL :: "redis \<Rightarrow> int" where
  "configuredTTL r = (case REDIS_TTL r of None \<Rightarrow> 3600 | Some n \<Rightarrow> if n = 0 then 3600 else n)"

definition sessionKey :: "string \<Rightarrow> string" where
  "sessionKey sessionId = ''session:'' @ sessionId"

text \<open>\<open>saveSession(sessionId, messages)\<close>, at the time \<open>now\<close>.\<close>

definition saveSession ::
  "redis_client \<Rightarrow> string \<Rightarrow> message list \<Rightarrow> string \<Rightarrow> (js_error + unit) \<times> redis_client" where
  "saveSession rc sessionId messages now =
     (case rc of
        None \<Rightarrow> (Inl (JsError (''Failed to save session: '' @ err_message notInitialized) None), None)
      | Some client \<Rightarrow>
          let ttl = configuredTTL client;
              sessionData = \<lparr>sd_sessionId = sessionId, sd_messages = messages,
                             sd_lastUpdated = now, sd_messageCount = length messages\<rparr>;
              key = sessionKey sessionId
          in (case redis_setex client key ttl sessionData of
                (Inr u, client') \<Rightarrow> (Inr (), Some client')
              | (Inl error, client') \<Rightarrow>
                  (Inl (JsError (''Failed to save session: '' @ err_message error) None), Some client')))"

text \<open>\<open>getSession(sessionId)\<close>: every failure gives the empty list.\<close>

definition getSession :: "redis_client \<Rightarrow> string \<Rightarrow> message list \<times> redis_client" where
  "getSession rc sessionId =
     (case rc of
        None \<Rightarrow> ([], None)
      | Some client \<Rightarrow>
          (case redis_get client (sessionKey sessionId) of
             (Inr None, client') \<Rightarrow> ([], Some client')
           | (Inr (Some sessionData), client') \<Rightarrow> (sd_messages sessionData, Some client')
           | (Inl error, client') \<Rightarrow> ([], Some client')))"

definition deleteSession :: "redis_client \<Rightarrow> string \<Rightarrow> (js_error + bool) \<times> redis_client" where
  "deleteSession rc sessionId =
     (case rc of
        None \<Rightarrow> (Inl (JsError (''Failed to delete session: '' @ err_message notInitialized) None), None)
      | Some client \<Rightarrow>
          (case redis_del client (sessionKey sessionId) of
             (Inr result, client') \<Rightarrow> (Inr (result = 1), Some client')
           | (Inl error, client') \<Rightarrow>
               (Inl (JsError (''Failed to delete session: '' @ err_message error) None), Some client')))"

text \<open>\<open>extendSessionTTL(sessionId, ttl = null)\<close>: \<open>ttl || parseInt(...) || 3600\<close>.\<close>

definition extendSessionTTL :: "redis_client \<Rightarrow> string \<Rightarrow> int option \<Rightarrow> bool \<times> redis_client" where
  "extendSessionTTL rc sessionId ttl =
     (case rc of
        None \<Rightarrow> (False, None)
      | Some client \<Rightarrow>
          let newTTL = (case ttl of
                          None \<Rightarrow> configuredTTL client
                        | Some t \<Rightarrow> if t = 0 then configuredTTL client else t)
          in (case redis_expire client (sessionKey sessionId) newTTL of
                (Inr result, client') \<Rightarrow> ((result = 1), Some client')
              | (Inl error, client') \<Rightarrow> (False, Some client')))"

text \<open>What a reader finds under a session's key, and the seconds the key has left.\<close>

definition storedMessages :: "redis_client \<Rightarrow> string \<Rightarrow> message list option" where
  "storedMessages rc sessionId =
     (case rc of
        None \<Rightarrow> None
      | Some client \<Rightarrow> map_option (sd_messages \<circ> fst) (kv client (sessionKey sessionId)))"

definition history :: "redis_client \<Rightarrow> string \<Rightarrow> message list" where
  "history rc sessionId = (case storedMessages rc sessionId of None \<Rightarrow> [] | Some ms \<Rightarrow> ms)"

definition secondsLeft :: "redis_client \<Rightarrow> string \<Rightarrow> nat option" where
  "secondsLeft rc sessionId =
     (case rc of
        None \<Rightarrow> None
      | Some client \<Rightarrow> map_option snd (kv client (sessionKey sessionId)))"

definition commands :: "redis_client \<Rightarrow> redis_cmd list" where
  "commands rc = (case rc of None \<Rightarrow> [] | Some client \<Rightarrow> received client)"

text \<open>The commands the server received between two states of the client, and the
  message lists written by the \<open>SETEX\<close> commands among them.\<close>

definition commandsSince :: "redis_client \<Rightarrow> redis_client \<Rightarrow> redis_cmd list" where
  "commandsSince rc rc' = drop (length (commands rc)) (commands rc')"

fun savedMessages :: "redis_cmd \<Rightarrow> message list option" where
  "savedMessages (SETEX key ttl v) = Some (sd_messages v)"
| "savedMessages c = None"

definition savedLists :: "redis_cmd list \<Rightarrow> message list list" where
  "savedLists cmds = List.map_filter savedMessages cmds"

section \<open>Conversation gateway (chatController)\<close>

text \<open>
  What a handler reads from outside while it serves one turn: the UUID check of the
  schema validator, the identifiers \<open>uuidv4()\<close> gives, \<open>Date.now()\<close> when the handler
  starts, when the bot message is built and when the response is sent, and the ISO
  timestamps of the messages (user, bot, and the error message of the socket
  handler), of the saves and of the response.
\<close>

record turn_env =
  isUuid :: "string \<Rightarrow> bool"
  userId :: string
  botId :: string
  errorId :: string
  handlerStart :: int
  botTime :: int
  respondTime :: int
  userTimestamp :: string
  botTimestamp :: string
  errorTimestamp :: string
  firstSaveTimestamp :: string
  lastSaveTimestamp :: string
  respondTimestamp :: string

record rest_request =
  body_sessionId :: string
  body_message :: string
  req_ip :: string
  req_userAgent :: "string option"

record socket_request =
  data_sessionId :: string
  data_message :: string
  socket_id :: string
  handshake_address :: string

text \<open>\<open>messageSchema\<close>: \<open>sessionId\<close> a UUID string, \<open>message\<close> a string of 1 to 1000
  characters.\<close>

definition messageSchemaValid :: "turn_env \<Rightarrow> string \<Rightarrow> string \<Rightarrow> bool" where
  "messageSchemaValid env sessionId msg \<longleftrightarrow>
     isUuid env sessionId \<and> 1 \<le> length msg \<and> length msg \<le> 1000"

datatype bad_input = SchemaViolation | QueryRefused string

record rest_body =
  b_answer :: jsval
  b_sources :: "source list"
  b_metadata :: jsobj
  b_sessionId :: string
  b_timestamp :: string

datatype rest_response = Status400 bad_input | Status500 js_error | Status200 rest_body

fun optStr :: "string option \<Rightarrow> jsval" where
  "optStr None = JUndefined"
| "optStr (Some s) = JStr s"

text \<open>The user and bot messages of the REST handler.\<close>

definition restUserMessage :: "turn_env \<Rightarrow> rest_request \<Rightarrow> string \<Rightarrow> message" where
  "restUserMessage env req vquery =
     \<lparr>m_id = userId env, m_type = ''user'', m_content = JStr vquery,
      m_timestamp = userTimestamp env, m_sources = None,
      m_metadata = Some [(''method'', JStr ''REST''), (''ipAddress'', JStr (req_ip req)),
                         (''userAgent'', optStr (req_userAgent req))],
      m_isError = False\<rparr>"

definition restBotMessage :: "turn_env \<Rightarrow> rag_result \<Rightarrow> message" where
  "restBotMessage env ragResponse =
     \<lparr>m_id = botId env, m_type = ''bot'', m_content = answer ragResponse,
      m_timestamp = botTimestamp env, m_sources = Some (sources ragResponse),
      m_metadata = Some (obj_set ''processingTime'' (JNum (botTime env - handlerStart env))
                           (metadata ragResponse)),
      m_isError = False\<rparr>"

text \<open>
  \<open>sendMessage\<close> (REST) in the two stretches that its awaited store calls cut it
  into: up to the answer of \<open>getSession\<close>, and from there to the response.
\<close>

datatype load_result = Rejected rest_response | Loaded string "message list"

definition sendMessage_load ::
  "turn_env \<Rightarrow> redis_client \<Rightarrow> rest_request \<Rightarrow> load_result \<times> redis_client" where
  "sendMessage_load env rc req =
     (if \<not> messageSchemaValid env (body_sessionId req) (body_message req)
      then (Rejected (Status400 SchemaViolation), rc)
      else
        (case validateQuery (JStr (body_message req)) of
           Invalid err \<Rightarrow> (Rejected (Status400 (QueryRefused err)), rc)
         | Valid vquery \<Rightarrow>
             (case getSession rc (body_sessionId req) of
                (currentMessages, rc') \<Rightarrow> (Loaded vquery currentMessages, rc'))))"

definition sendMessage_finish ::
  "world \<Rightarrow> turn_env \<Rightarrow> redis_client \<Rightarrow> rest_request \<Rightarrow> string \<Rightarrow> message list \<Rightarrow>
   rest_response \<times> redis_client" where
  "sendMessage_finish w env rc req vquery currentMessages =
     (let sessionId = body_sessionId req;
          withUser = currentMessages @ [restUserMessage env req vquery]
      in case generateRAGResponse w (JStr vquery) sessionId of
           Inl error \<Rightarrow> (Status500 error, rc)
         | Inr ragResponse \<Rightarrow>
             (let withBot = withUser @ [restBotMessage env ragResponse] in
              case saveSession rc sessionId withBot (lastSaveTimestamp env) of
                (Inl error, rc') \<Rightarrow> (Status500 error, rc')
              | (Inr u, rc') \<Rightarrow>
                  (Status200
                     \<lparr>b_answer = answer ragResponse,
                      b_sources = sources ragResponse,
                      b_metadata =
                        obj_set ''processingTime'' (JNum (respondTime env - handlerStart env))
                          (obj_set ''totalSessionMessages'' (JNum (int (length withBot)))
                             (metadata ragResponse)),
                      b_sessionId = sessionId,
                      b_timestamp = respondTimestamp env\<rparr>,
                   rc')))"

definition sendMessage ::
  "world \<Rightarrow> turn_env \<Rightarrow> redis_client \<Rightarrow> rest_request \<Rightarrow> rest_response \<times> redis_client" where
  "sendMessage w env rc req =
     (case sendMessage_load env rc req of
        (Rejected response, rc') \<Rightarrow> (response, rc')
      | (Loaded vquery currentMessages, rc') \<Rightarrow>
          sendMessage_finish w env rc' req vquery currentMessages)"

text \<open>The \<open>send_message\<close> handler of \<open>handleChatSocket\<close>, with what it emits to the
  socket and to the session's room.\<close>

datatype socket_event =
  InvalidInput | ErrorText string | NewMessage message | BotTyping bool

datatype emitted = ToSocket socket_event | ToRoom string socket_event

definition socketUserMessage :: "turn_env \<Rightarrow> socket_request \<Rightarrow> string \<Rightarrow> message" where
  "socketUserMessage env req vquery =
     \<lparr>m_id = userId env, m_type = ''user'', m_content = JStr vquery,
      m_timestamp = userTimestamp env, m_sources = None,
      m_metadata = Some [(''socketId'', JStr (socket_id req)),
                         (''ipAddress'', JStr (handshake_address req))],
      m_isError = False\<rparr>"

definition socketBotMessage :: "turn_env \<Rightarrow> rag_result \<Rightarrow> message" where
  "socketBotMessage env ragResponse =
     \<lparr>m_id = botId env, m_type = ''bot'', m_content = answer ragResponse,
      m_timestamp = botTimestamp env, m_sources = Some (sources ragResponse),
      m_metadata = Some (metadata ragResponse),
      m_isError = False\<rparr>"

definition socketErrorMessage :: "turn_env \<Rightarrow> message" where
  "socketErrorMessage env =
     \<lparr>m_id = errorId env, m_type = ''bot'',
      m_content = JStr ''I apologize, but I encountered an error while processing your question. Please try again.'',
      m_timestamp = errorTimestamp env, m_sources = None, m_metadata = None,
      m_isError = True\<rparr>"

definition send_message ::
  "world \<Rightarrow> turn_env \<Rightarrow> redis_client \<Rightarrow> socket_request \<Rightarrow> emitted list \<times> redis_client" where
  "send_message w env rc req =
     (let sessionId = data_sessionId req in
      if \<not> messageSchemaValid env sessionId (data_message req) then ([ToSocket InvalidInput], rc)
      else
        (case validateQuery (JStr (data_message req)) of
           Invalid err \<Rightarrow> ([ToSocket (ErrorText err)], rc)
         | Valid vquery \<Rightarrow>
             (case getSession rc sessionId of
                (messages, rc1) \<Rightarrow>
                  (let userMessage = socketUserMessage env req vquery;
                       withUser = messages @ [userMessage];
                       failed = [ToRoom sessionId (BotTyping False),
                                 ToSocket (NewMessage (socketErrorMessage env))]
                   in case saveSession rc1 sessionId withUser (firstSaveTimestamp env) of
                        (Inl error, rc2) \<Rightarrow> (failed, rc2)
                      | (Inr u, rc2) \<Rightarrow>
                          (let shown = [ToRoom sessionId (NewMessage userMessage),
                                        ToRoom sessionId (BotTyping True)]
                           in case generateRAGResponse w (JStr vquery) sessionId of
                                Inl error \<Rightarrow> (shown @ failed, rc2)
                              | Inr ragResponse \<Rightarrow>
                                  (let botMessage = socketBotMessage env ragResponse;
                                       withBot = withUser @ [botMessage]
                                   in case saveSession rc2 sessionId withBot (lastSaveTimestamp env) of
                                        (Inl error, rc3) \<Rightarrow> (shown @ failed, rc3)
                                      | (Inr u', rc3) \<Rightarrow>
                                          (shown @ [ToRoom sessionId (BotTyping False),
                                                    ToRoom sessionId (NewMessage botMessage)],
                                           rc3)))))))"

section \<open>Two REST turns in flight at once\<close>

text \<open>
  The server runs one handler at a time and changes handler only where one awaits.
  A REST turn talks to the store twice, so it is two steps: \<open>sendMessage_load\<close>, then
  \<open>sendMessage_finish\<close> with the messages it loaded. A schedule says which of two
  turns takes the next step.
\<close>

datatype turn_state = Waiting | Pending string "message list" | Done rest_response

type_synonym turn = "world \<times> turn_env \<times> rest_request"

fun stepTurn :: "turn \<Rightarrow> turn_state \<times> redis_client \<Rightarrow> turn_state \<times> redis_client" where
  "stepTurn (w, env, req) (Waiting, rc) =
     (case sendMessage_load env rc req of
        (Rejected response, rc') \<Rightarrow> (Done response, rc')
      | (Loaded vquery currentMessages, rc') \<Rightarrow> (Pending vquery currentMessages, rc'))"
| "stepTurn (w, env, req) (Pending vquery currentMessages, rc) =
     (case sendMessage_finish w env rc req vquery currentMessages of
        (response, rc') \<Rightarrow> (Done response, rc'))"
| "stepTurn (w, env, req) (Done response, rc) = (Done response, rc)"

datatype turn_id = First | Second

fun runSchedule ::
  "turn \<Rightarrow> turn \<Rightarrow> turn_id list \<Rightarrow> turn_state \<times> turn_state \<times> redis_client \<Rightarrow>
   turn_state \<times> turn_state \<times> redis_client" where
  "runSchedule t1 t2 [] st = st"
| "runSchedule t1 t2 (First # sched) (s1, s2, rc) =
     (case stepTurn t1 (s1, rc) of (s1', rc') \<Rightarrow> runSchedule t1 t2 sched (s1', s2, rc'))"
| "runSchedule t1 t2 (Second # sched) (s1, s2, rc) =
     (case stepTurn t2 (s2, rc) of (s2', rc') \<Rightarrow> runSchedule t1 t2 sched (s1, s2', rc'))"

fun isDone :: "turn_state \<Rightarrow> bool" where
  "isDone (Done response) = True"
| "isDone s = False"

section \<open>Example inputs\<close>

text \<open>A failure of the generation provider that is not retryable, a provider that
  refuses the first request with it and answers the second, and one that answers.\<close>

definition badRequest :: js_error where
  "badRequest = JsError ''[400 Bad Request] Invalid JSON payload received'' None"

definition geminiSecondTry :: "string \<Rightarrow> nat \<Rightarrow> gemini_reply" where
  "geminiSecondTry prompt attempt =
     (if attempt = 1 then GeminiFailure badRequest
      else GeminiText ''Here is what the sources say.'')"

definition geminiAnswers :: "string \<Rightarrow> nat \<Rightarrow> gemini_reply" where
  "geminiAnswers prompt attempt = GeminiText ''Here is what the sources say.''"

text \<open>An embedding provider that is down, one that refuses the key, one that is down
  for the first request only, one that answers, and one whose answer carries a text
  where the array should be.\<close>

definition jinaDown :: "string \<Rightarrow> nat \<Rightarrow> jina_reply" where
  "jinaDown text attempt = JinaFailure (JsError ''Request failed with status code 503'' (Some 503))"

definition jinaRefuses :: "string \<Rightarrow> nat \<Rightarrow> jina_reply" where
  "jinaRefuses text attempt = JinaFailure (JsError ''Request failed with status code 401'' (Some 401))"

definition jinaRecovers :: "string \<Rightarrow> nat \<Rightarrow> jina_reply" where
  "jinaRecovers text attempt =
     (if attempt = 1 then JinaFailure (JsError ''Request failed with status code 503'' (Some 503))
      else JinaData (EmbArray [1 / 2, 1 / 4]))"

definition jinaAnswers :: "string \<Rightarrow> nat \<Rightarrow> jina_reply" where
  "jinaAnswers text attempt = JinaData (EmbArray [1 / 2, 1 / 4])"

definition jinaGarbled :: "string \<Rightarrow> nat \<Rightarrow> jina_reply" where
  "jinaGarbled text attempt = JinaData EmbNonArray"

text \<open>An index that cannot be reached, one whose \<open>result\<close> is no array, one that
  answers without a result, and indexes that return given scores.\<close>

definition qdrantDown :: "search_payload \<Rightarrow> qdrant_reply" where
  "qdrantDown request = QdrantFailure (JsError ''connect ECONNREFUSED'' None)"

definition qdrantGarbled :: "search_payload \<Rightarrow> qdrant_reply" where
  "qdrantGarbled request = QdrantNotArray"

definition qdrantEmpty :: "search_payload \<Rightarrow> qdrant_reply" where
  "qdrantEmpty request = QdrantNoResult"

definition hit :: "string \<Rightarrow> rat \<Rightarrow> raw_hit" where
  "hit i s = \<lparr>h_id = i, h_score = s,
     h_payload = Some (emptyPayload\<lparr>p_title := Some ''Chip makers report record quarter'',
                                     p_source := Some ''Reuters''\<rparr>)\<rparr>"

definition qdrantTwoHits :: "search_payload \<Rightarrow> qdrant_reply" where
  "qdrantTwoHits request = QdrantResult [hit ''doc-1'' (85 / 100), hit ''doc-2'' (6 / 10)]"


definition exampleWorld :: world where
  "exampleWorld =
     \<lparr>JINA_API_KEY = Some ''jina-key'', QDRANT_URL = Some ''https://index.example'',
      QDRANT_API_KEY = Some ''qdrant-key'', jina = jinaAnswers, qdrant = qdrantEmpty,
      gemini = geminiAnswers, startTime = 1000, endTime = 1250,
      isoNow = ''2025-09-18T08:00:00.000Z''\<rparr>"

text \<open>The same world with one service changed.\<close>

definition indexDownWorld :: world where
  "indexDownWorld = exampleWorld\<lparr>qdrant := qdrantDown\<rparr>"

definition indexGarbledWorld :: world where
  "indexGarbledWorld = exampleWorld\<lparr>qdrant := qdrantGarbled\<rparr>"

definition unconfiguredWorld :: world where
  "unconfiguredWorld = exampleWorld\<lparr>JINA_API_KEY := None, QDRANT_API_KEY := None\<rparr>"

definition embedRefusedWorld :: world where
  "embedRefusedWorld = exampleWorld\<lparr>jina := jinaRefuses\<rparr>"

definition embedRecoversWorld :: world where
  "embedRecoversWorld = exampleWorld\<lparr>jina := jinaRecovers\<rparr>"

definition embedDownWorld :: world where
  "embedDownWorld = exampleWorld\<lparr>jina := jinaDown\<rparr>"

definition garbledWorld :: world where
  "garbledWorld = exampleWorld\<lparr>jina := jinaGarbled\<rparr>"

definition twoHitsWorld :: world where
  "twoHitsWorld = exampleWorld\<lparr>qdrant := qdrantTwoHits\<rparr>"


definition exampleVector :: embedding where
  "exampleVector = Vector [1 / 2, 1 / 4]"

definition techQuery :: string where
  "techQuery = ''What happened in tech today?''"



text \<open>A reachable store with nothing in it and no \<open>REDIS_TTL\<close> set, the same store
  holding an empty session with 5 seconds left, that store with \<open>REDIS_TTL\<close> set to
  120, a stand-in for the validator's UUID check, and two turns on one session.\<close>

definition emptyRedis :: redis where
  "emptyRedis = \<lparr>REDIS_TTL = None, up = True, kv = Map.empty, received = []\<rparr>"

definition expiringRedis :: redis where
  "expiringRedis =
     emptyRedis\<lparr>kv := [''session:3f2b8c1e-5d4a-4c6b-9e7f-0a1b2c3d4e5f'' \<mapsto>
       (\<lparr>sd_sessionId = ''3f2b8c1e-5d4a-4c6b-9e7f-0a1b2c3d4e5f'', sd_messages = [],
         sd_lastUpdated = ''2025-09-18T07:00:05.000Z'', sd_messageCount = 0\<rparr>, 5)]\<rparr>"

definition shortLivedRedis :: redis where
  "shortLivedRedis = expiringRedis\<lparr>REDIS_TTL := Some 120\<rparr>"

definition looksLikeUuid :: "string \<Rightarrow> bool" where
  "looksLikeUuid s \<longleftrightarrow> length s = 36"

definition exampleSession :: string where
  "exampleSession = ''3f2b8c1e-5d4a-4c6b-9e7f-0a1b2c3d4e5f''"

definition firstEnv :: turn_env where
  "firstEnv =
     \<lparr>isUuid = looksLikeUuid, userId = ''u-1'', botId = ''b-1'', errorId = ''e-1'',
      handlerStart = 1000, botTime = 1300, respondTime = 1310,
      userTimestamp = ''2025-09-18T08:00:00.100Z'', botTimestamp = ''2025-09-18T08:00:00.300Z'',
      errorTimestamp = ''2025-09-18T08:00:00.320Z'',
      firstSaveTimestamp = ''2025-09-18T08:00:00.110Z'',
      lastSaveTimestamp = ''2025-09-18T08:00:00.305Z'',
      respondTimestamp = ''2025-09-18T08:00:00.310Z''\<rparr>"

definition secondEnv :: turn_env where
  "secondEnv = firstEnv\<lparr>userId := ''u-2'', botId := ''b-2'', errorId := ''e-2''\<rparr>"

definition restRequest :: rest_request where
  "restRequest =
     \<lparr>body_sessionId = exampleSession, body_message = techQuery, req_ip = ''203.0.113.7'',
      req_userAgent = Some ''curl/8.5.0''\<rparr>"

definition secondRequest :: rest_request where
  "secondRequest = restRequest\<lparr>body_message := ''Any news on chip makers?''\<rparr>"

definition socketRequest :: socket_request where
  "socketRequest =
     \<lparr>data_sessionId = exampleSession, data_message = techQuery, socket_id = ''sock-1'',
      handshake_address = ''203.0.113.7''\<rparr>"

section \<open>Facts about the string operations\<close>

lemma startsWith_append: "startsWith (p @ y) p"
  by (induction p) auto

lemma startsWith_decomp: "startsWith s p \<Longrightarrow> s = p @ drop (length p) s"
  by (induction s p rule: startsWith.induct) auto

lemma splitAtFirst_decomp: "splitAtFirst p s = Some (b, a) \<Longrightarrow> s = b @ p @ a"
proof (induction s arbitrary: b)
  case Nil
  then show ?case by (auto split: if_splits)
next
  case (Cons c cs)
  show ?case
  proof (cases "startsWith (c # cs) p")
    case True
    with Cons.prems have "b = []" and "a = drop (length p) (c # cs)" by auto
    with startsWith_decomp [OF True] show ?thesis by simp
  next
    case False
    with Cons.prems obtain b' where "splitAtFirst p cs = Some (b', a)" and "b = c # b'"
      by (auto split: option.splits)
    with Cons.IH show ?thesis by simp
  qed
qed

lemma splitAtFirst_found: "splitAtFirst p (x @ p @ y) \<noteq> None"
proof (induction x)
  case Nil
  show ?case
  proof (cases "p @ y")
    case Nil
    then show ?thesis by simp
  next
    case (Cons c cs)
    have "startsWith (c # cs) p" using startsWith_append [of p y] Cons by simp
    with Cons show ?thesis by simp
  qed
next
  case (Cons c x)
  then show ?case by (auto split: option.splits)
qed

lemma getSubstitution_plain: "CHR ''$'' \<notin> set r \<Longrightarrow> getSubstitution m b a r = r"
  by (induction m b a r rule: getSubstitution.induct) auto

lemma replaceFirst_plain:
  assumes "CHR ''$'' \<notin> set r"
  shows "\<exists>b a. x @ p @ y = b @ p @ a \<and> replaceFirst (x @ p @ y) p r = b @ r @ a"
proof -
  obtain b a where s: "splitAtFirst p (x @ p @ y) = Some (b, a)"
    using splitAtFirst_found [of p x y] by (cases "splitAtFirst p (x @ p @ y)") auto
  from splitAtFirst_decomp [OF s] have "x @ p @ y = b @ p @ a" .
  moreover have "replaceFirst (x @ p @ y) p r = b @ r @ a"
    using s assms by (simp add: replaceFirst_def getSubstitution_plain)
  ultimately show ?thesis by blast
qed

lemma replaceFirst_nonempty:
  assumes "\<not> startsWith (c # cs) p"
  shows "replaceFirst (c # cs) p r \<noteq> []"
  using assms by (auto simp: replaceFirst_def split: option.splits)

section \<open>Generation client: which failures are retried\<close>

declare geminiLoop.simps [simp del] embedLoop.simps [simp del]

lemma geminiLoop_unfold:
  "attempt \<le> maxRetries \<Longrightarrow>
   geminiLoop reply maxRetries d attempt =
     (case geminiAttempt (reply attempt) of
        Inr t \<Rightarrow> (Inr (Some t), [GenerateRequest attempt])
      | Inl e \<Rightarrow>
          if retryable e \<and> attempt < maxRetries then
            (case geminiLoop reply maxRetries d (Suc attempt) of
               (r, tr) \<Rightarrow> (r, GenerateRequest attempt # Delay (d * attempt) # tr))
          else if attempt = maxRetries then (Inl e, [GenerateRequest attempt])
          else
            (case geminiLoop reply maxRetries d (Suc attempt) of
               (r, tr) \<Rightarrow> (r, GenerateRequest attempt # tr)))"
  by (subst geminiLoop.simps) simp

lemma geminiAttempt_text: "geminiAttempt g = Inr t \<Longrightarrow> 10 < length t"
  by (cases g) (auto split: if_splits)

lemma gemini_returns_text:
  "attempt \<le> maxRetries \<Longrightarrow> fst (geminiLoop reply maxRetries d attempt) = Inr r \<Longrightarrow>
   \<exists>t. r = Some t \<and> 10 < length t"
proof (induction reply maxRetries d attempt rule: geminiLoop.induct)
  case (1 reply maxRetries retryDelay attempt)
  note unf = geminiLoop_unfold [OF "1.prems"(1), of reply retryDelay]
  show ?case
  proof (cases "geminiAttempt (reply attempt)")
    case (Inr t)
    with "1.prems"(2) unf have "r = Some t" by simp
    with geminiAttempt_text [OF Inr] show ?thesis by simp
  next
    case (Inl e)
    show ?thesis
    proof (cases "attempt = maxRetries")
      case True
      with Inl "1.prems"(2) unf show ?thesis by simp
    next
      case False
      with "1.prems"(1) have lt: "attempt < maxRetries" by simp
      then have le: "Suc attempt \<le> maxRetries" by simp
      have next_r: "fst (geminiLoop reply maxRetries retryDelay (Suc attempt)) = Inr r"
        using "1.prems"(2) Inl False lt unf by (simp split: prod.splits if_splits)
      show ?thesis
      proof (cases "retryable e")
        case True
        from "1.IH"(1) [OF "1.prems"(1) Inl _ le next_r] True lt show ?thesis by simp
      next
        case False
        from "1.IH"(2) [OF "1.prems"(1) Inl _ _ le next_r] False \<open>attempt \<noteq> maxRetries\<close>
        show ?thesis by simp
      qed
    qed
  qed
qed

text \<open>
  C4. The claim: \<open>generateWithGemini\<close> retries only a failure whose message contains
  \<open>503\<close>, \<open>overloaded\<close>, \<open>quota\<close> or \<open>rate limit\<close>, and any other failure propagates on
  the first attempt. The comment in the \<open>catch\<close> block says the same (throw on the last
  attempt or on a non-retryable error), but the block throws only when
  \<open>attempt === maxRetries\<close>. So a malformed-request failure on the first attempt, which
  is not retryable, is followed at once by a second request, whose text the function
  returns: the failure never reaches the caller.
\<close>

theorem generateWithGemini_repeats_bad_request:
  "\<not> retryable badRequest \<and>
   generateWithGemini geminiSecondTry prompt 3 2000 =
     (Inr (Some ''Here is what the sources say.''), [GenerateRequest 1, GenerateRequest 2])"
  by (simp add: generateWithGemini_def geminiSecondTry_def badRequest_def retryable_def
      geminiLoop.simps)

section \<open>Fallback generator\<close>






lemma selectedTemplate_cases:
  "selectedTemplate q = newsTemplate q \<or> selectedTemplate q = technologyTemplate q \<or>
   selectedTemplate q = businessTemplate q \<or> selectedTemplate q = genericTemplate q"
  by (simp add: selectedTemplate_def fallbackTemplates_def)


lemma selectedTemplate_head:
  "\<exists>c cs. selectedTemplate q = c # cs \<and> \<not> startsWith (c # cs) ''{sources}''"
  using selectedTemplate_cases [of q]
  by (auto simp: newsTemplate_def technologyTemplate_def businessTemplate_def genericTemplate_def)






lemma generateFallbackResponse_nonempty: "generateFallbackResponse q docs = Inr t \<Longrightarrow> t \<noteq> []"
proof -
  assume r: "generateFallbackResponse q docs = Inr t"
  obtain c cs where "selectedTemplate q = c # cs" and "\<not> startsWith (c # cs) ''{sources}''"
    using selectedTemplate_head by blast
  with r show ?thesis
    by (auto simp: generateFallbackResponse_def replaceFirst_nonempty simp del: startsWith.simps
        split: sum.splits)
qed








section \<open>Orchestrator: every string query gets an answer\<close>

lemma generateAnswer_props:
  assumes "generateAnswer w vq docs = Inr r"
  shows "\<exists>a. answer r = JStr a \<and> a \<noteq> [] \<and>
       (obj_get (metadata r) ''modelUsed'' = JStr ''gemini-1.5-flash'' \<or>
        obj_get (metadata r) ''modelUsed'' = JStr ''fallback-template'')"
proof (cases "fst (generateWithGemini (gemini w) (systemPrompt (contextOf docs) vq) 3 2000)")
  case (Inl e)
  with assms obtain t where t: "generateFallbackResponse vq docs = Inr t" and "answer r = JStr t"
    and "obj_get (metadata r) ''modelUsed'' = JStr ''fallback-template''"
    by (auto simp: generateAnswer_def Let_def split: sum.splits)
  with generateFallbackResponse_nonempty [OF t] show ?thesis by simp
next
  case (Inr ai)
  then have "fst (geminiLoop (gemini w (systemPrompt (contextOf docs) vq)) 3 2000 1) = Inr ai"
    by (simp add: generateWithGemini_def)
  from gemini_returns_text [OF _ this] obtain t where "ai = Some t" and "10 < length t"
    by auto
  with Inr assms show ?thesis
    by (auto simp: generateAnswer_def Let_def)
qed

lemma errorFallback_props:
  "\<exists>a. answer (errorFallback w q e) = JStr a \<and> a \<noteq> [] \<and>
       obj_get (metadata (errorFallback w q e)) ''modelUsed'' = JStr ''error-fallback''"
  by (simp add: errorFallback_def)

lemma ragTry_Inr: "ragTry w q = Inr r \<Longrightarrow> \<exists>vq docs. generateAnswer w vq docs = Inr r"
  by (auto simp: ragTry_def Let_def split: validation.splits if_splits)

lemma generateRAGResponse_returns: "\<exists>r. generateRAGResponse w (JStr q) sid = Inr r"
  by (cases "ragTry w q") auto

text \<open>
  C1. For every query string and session identifier, \<open>generateRAGResponse\<close> returns a
  result and does not throw; the answer of the result is a non-empty string, and its
  \<open>metadata.modelUsed\<close> is \<open>gemini-1.5-flash\<close>, \<open>fallback-template\<close> or \<open>error-fallback\<close>.
\<close>

theorem generateRAGResponse_always_answers:
  "\<exists>r a. generateRAGResponse w (JStr query) sessionId = Inr r \<and>
         answer r = JStr a \<and> a \<noteq> [] \<and>
         (obj_get (metadata r) ''modelUsed'' = JStr ''gemini-1.5-flash'' \<or>
          obj_get (metadata r) ''modelUsed'' = JStr ''fallback-template'' \<or>
          obj_get (metadata r) ''modelUsed'' = JStr ''error-fallback'')"
proof (cases "ragTry w query")
  case (Inl e)
  then have "generateRAGResponse w (JStr query) sessionId = Inr (errorFallback w query e)"
    by simp
  with errorFallback_props [of w query e] show ?thesis by metis
next
  case (Inr r)
  then have ret: "generateRAGResponse w (JStr query) sessionId = Inr r" by simp
  from ragTry_Inr [OF Inr] obtain vq docs where "generateAnswer w vq docs = Inr r" by blast
  from generateAnswer_props [OF this] ret show ?thesis by metis
qed

section \<open>The example inputs, evaluated\<close>

lemma indexDown_search: "searchVectors indexDownWorld exampleVector 5 (7 / 10) = getMockSearchResults"
  by (simp add: searchVectors_def searchVectorsTry_def indexDownWorld_def exampleWorld_def
      qdrantUrl_def qdrantDown_def)

lemma mock_count: "length getMockSearchResults = 5"
  by (simp add: getMockSearchResults_def)

lemma embedDown_trace:
  "generateEmbedding embedDownWorld ''hello world'' 2 =
     (MockEmbedding ''hello world'', [EmbedRequest 1, Delay 1000, EmbedRequest 2])"
  by (simp add: generateEmbedding_def generateEmbeddingTry_def embedDownWorld_def exampleWorld_def
      jinaDown_def embedLoop.simps generateMockEmbedding_def)

lemma trim_hi: "trim ''hi'' = ''hi''"
  by (simp add: trim_def isWhiteSpace_def)

lemma trim_tech: "trim techQuery = techQuery"
  by (simp add: trim_def isWhiteSpace_def techQuery_def)

lemma validate_tech: "validateQuery (JStr techQuery) = Valid techQuery"
proof -
  have "length techQuery = 28" and "techQuery \<noteq> []"
    by (simp_all add: techQuery_def)
  then show ?thesis by (simp add: trim_tech Let_def)
qed


section \<open>Vector retriever: what a failed search returns\<close>

text \<open>
  C2. The claim: when the similarity query fails, \<open>searchVectors\<close> returns the empty
  list. The \<open>catch\<close> block of \<open>searchVectors\<close> returns \<open>getMockSearchResults()\<close>, and says
  so in its comment and its log line: with the index unreachable the caller gets the
  five mock articles.
\<close>

theorem searchVectors_down_not_empty:
  "qdrant indexDownWorld \<lparr>sp_vector = exampleVector, sp_limit = 5, sp_score_threshold = 7 / 10,
      sp_with_payload = True, sp_with_vector = False\<rparr> =
     QdrantFailure (JsError ''connect ECONNREFUSED'' None) \<and>
   searchVectors indexDownWorld exampleVector 5 (7 / 10) \<noteq> [] \<and>
   length (searchVectors indexDownWorld exampleVector 5 (7 / 10)) = 5"
proof -
  have "qdrant indexDownWorld \<lparr>sp_vector = exampleVector, sp_limit = 5, sp_score_threshold = 7 / 10,
      sp_with_payload = True, sp_with_vector = False\<rparr> =
     QdrantFailure (JsError ''connect ECONNREFUSED'' None)"
    by (simp add: indexDownWorld_def exampleWorld_def qdrantDown_def)
  moreover have "length (searchVectors indexDownWorld exampleVector 5 (7 / 10)) = 5"
    by (simp add: indexDown_search mock_count)
  moreover from this have "searchVectors indexDownWorld exampleVector 5 (7 / 10) \<noteq> []"
    by auto
  ultimately show ?thesis by simp
qed

text \<open>
  C2, as amended: \<open>searchVectors\<close> never throws. Whenever the similarity query fails
  (a failure of the transport, an unreachable index, or an answer whose \<open>result\<close> is
  no array), and whenever no API key of the index is configured, it returns the five
  fixed mock results of \<open>getMockSearchResults\<close>, not the empty list. With the key
  configured, an answer without a \<open>result\<close> gives the empty list, and an answer with an
  array of points gives these points in order, each with its id, its score and its
  payload (an empty object for a missing one); so the empty list is returned exactly
  when the index is configured and answers without a result or with no point.
\<close>

theorem searchVectors_failure_gives_mock:
  "(qdrant w \<lparr>sp_vector = queryVector, sp_limit = limit,
        sp_score_threshold = scoreThreshold, sp_with_payload = True, sp_with_vector = False\<rparr> = QdrantFailure e \<or>
    qdrant w \<lparr>sp_vector = queryVector, sp_limit = limit,
        sp_score_threshold = scoreThreshold, sp_with_payload = True, sp_with_vector = False\<rparr> = QdrantNotArray \<or>
    \<not> truthy (QDRANT_API_KEY w) \<longrightarrow>
      searchVectors w queryVector limit scoreThreshold = getMockSearchResults \<and>
      length (searchVectors w queryVector limit scoreThreshold) = 5) \<and>
   (truthy (QDRANT_API_KEY w) \<and>
    qdrant w \<lparr>sp_vector = queryVector, sp_limit = limit,
        sp_score_threshold = scoreThreshold, sp_with_payload = True, sp_with_vector = False\<rparr> = QdrantNoResult \<longrightarrow>
      searchVectors w queryVector limit scoreThreshold = []) \<and>
   (truthy (QDRANT_API_KEY w) \<and>
    qdrant w \<lparr>sp_vector = queryVector, sp_limit = limit,
        sp_score_threshold = scoreThreshold, sp_with_payload = True, sp_with_vector = False\<rparr> = QdrantResult hits \<longrightarrow>
      searchVectors w queryVector limit scoreThreshold =
        map (\<lambda>result. \<lparr>c_id = h_id result, c_score = h_score result,
                         c_payload = Some (case h_payload result of
                                             None \<Rightarrow> emptyPayload | Some p \<Rightarrow> p)\<rparr>)
          hits) \<and>
   (searchVectors w queryVector limit scoreThreshold = [] \<longleftrightarrow>
      truthy (QDRANT_API_KEY w) \<and>
      (qdrant w \<lparr>sp_vector = queryVector, sp_limit = limit,
        sp_score_threshold = scoreThreshold, sp_with_payload = True, sp_with_vector = False\<rparr> = QdrantNoResult \<or>
       qdrant w \<lparr>sp_vector = queryVector, sp_limit = limit,
        sp_score_threshold = scoreThreshold, sp_with_payload = True, sp_with_vector = False\<rparr> = QdrantResult []))"
proof -
  have url: "qdrantUrl w \<noteq> []"
    by (cases "QDRANT_URL w") (auto simp: qdrantUrl_def)
  have mock: "getMockSearchResults \<noteq> []"
    using mock_count by auto
  show ?thesis
  proof (cases "truthy (QDRANT_API_KEY w)")
    case False
    with url mock show ?thesis
      by (simp add: searchVectors_def searchVectorsTry_def mock_count)
  next
    case True
    show ?thesis
    proof (cases "qdrant w \<lparr>sp_vector = queryVector, sp_limit = limit,
        sp_score_threshold = scoreThreshold, sp_with_payload = True, sp_with_vector = False\<rparr>")
      case (QdrantFailure e')
      with True url mock show ?thesis
        by (simp add: searchVectors_def searchVectorsTry_def mock_count)
    next
      case QdrantNoResult
      with True url show ?thesis
        by (simp add: searchVectors_def searchVectorsTry_def)
    next
      case QdrantNotArray
      with True url mock show ?thesis
        by (simp add: searchVectors_def searchVectorsTry_def mock_count)
    next
      case (QdrantResult hits')
      with True url show ?thesis
        by (simp add: searchVectors_def searchVectorsTry_def)
    qed
  qed
qed

theorem searchVectors_failure_gives_mock_witness:
  "qdrant indexDownWorld \<lparr>sp_vector = exampleVector, sp_limit = 5, sp_score_threshold = 7 / 10,
      sp_with_payload = True, sp_with_vector = False\<rparr> = QdrantFailure (JsError ''connect ECONNREFUSED'' None) \<and>
   searchVectors indexDownWorld exampleVector 5 (7 / 10) = getMockSearchResults \<and>
   length (searchVectors indexDownWorld exampleVector 5 (7 / 10)) = 5 \<and>
   qdrant indexGarbledWorld \<lparr>sp_vector = exampleVector, sp_limit = 5, sp_score_threshold = 7 / 10,
      sp_with_payload = True, sp_with_vector = False\<rparr> = QdrantNotArray \<and>
   searchVectors indexGarbledWorld exampleVector 5 (7 / 10) = getMockSearchResults \<and>
   QDRANT_API_KEY unconfiguredWorld = None \<and>
   searchVectors unconfiguredWorld exampleVector 5 (7 / 10) = getMockSearchResults \<and>
   QDRANT_API_KEY exampleWorld = Some ''qdrant-key'' \<and>
   qdrant exampleWorld \<lparr>sp_vector = exampleVector, sp_limit = 5, sp_score_threshold = 7 / 10,
      sp_with_payload = True, sp_with_vector = False\<rparr> = QdrantNoResult \<and>
   searchVectors exampleWorld exampleVector 5 (7 / 10) = [] \<and>
   qdrant twoHitsWorld \<lparr>sp_vector = exampleVector, sp_limit = 5, sp_score_threshold = 7 / 10,
      sp_with_payload = True, sp_with_vector = False\<rparr> =
     QdrantResult [hit ''doc-1'' (85 / 100), hit ''doc-2'' (6 / 10)] \<and>
   map c_id (searchVectors twoHitsWorld exampleVector 5 (7 / 10)) = [''doc-1'', ''doc-2''] \<and>
   map c_score (searchVectors twoHitsWorld exampleVector 5 (7 / 10)) = [85 / 100, 6 / 10]"
proof -
  have down: "qdrant indexDownWorld \<lparr>sp_vector = exampleVector, sp_limit = 5, sp_score_threshold = 7 / 10,
      sp_with_payload = True, sp_with_vector = False\<rparr> = QdrantFailure (JsError ''connect ECONNREFUSED'' None)"
    by (simp add: indexDownWorld_def exampleWorld_def qdrantDown_def)
  have garbled: "qdrant indexGarbledWorld \<lparr>sp_vector = exampleVector, sp_limit = 5, sp_score_threshold = 7 / 10,
      sp_with_payload = True, sp_with_vector = False\<rparr> = QdrantNotArray"
    by (simp add: indexGarbledWorld_def exampleWorld_def qdrantGarbled_def)
  have nokey: "QDRANT_API_KEY unconfiguredWorld = None" "\<not> truthy (QDRANT_API_KEY unconfiguredWorld)"
    by (simp_all add: unconfiguredWorld_def exampleWorld_def)
  have key: "QDRANT_API_KEY exampleWorld = Some ''qdrant-key''" "truthy (QDRANT_API_KEY exampleWorld)"
    "truthy (QDRANT_API_KEY twoHitsWorld)"
    by (simp_all add: twoHitsWorld_def exampleWorld_def)
  have none: "qdrant exampleWorld \<lparr>sp_vector = exampleVector, sp_limit = 5, sp_score_threshold = 7 / 10,
      sp_with_payload = True, sp_with_vector = False\<rparr> = QdrantNoResult"
    by (simp add: exampleWorld_def qdrantEmpty_def)
  have two: "qdrant twoHitsWorld \<lparr>sp_vector = exampleVector, sp_limit = 5, sp_score_threshold = 7 / 10,
      sp_with_payload = True, sp_with_vector = False\<rparr> =
      QdrantResult [hit ''doc-1'' (85 / 100), hit ''doc-2'' (6 / 10)]"
    by (simp add: twoHitsWorld_def exampleWorld_def qdrantTwoHits_def)
  from searchVectors_failure_gives_mock [of indexDownWorld exampleVector 5 "7 / 10"
      "JsError ''connect ECONNREFUSED'' None" "[]"] down
  have 1: "searchVectors indexDownWorld exampleVector 5 (7 / 10) = getMockSearchResults"
    "length (searchVectors indexDownWorld exampleVector 5 (7 / 10)) = 5"
    by blast+
  from searchVectors_failure_gives_mock [of indexGarbledWorld exampleVector 5 "7 / 10"
      "JsError ''connect ECONNREFUSED'' None" "[]"] garbled
  have 2: "searchVectors indexGarbledWorld exampleVector 5 (7 / 10) = getMockSearchResults"
    by blast
  from searchVectors_failure_gives_mock [of unconfiguredWorld exampleVector 5 "7 / 10"
      "JsError ''connect ECONNREFUSED'' None" "[]"] nokey(2)
  have 3: "searchVectors unconfiguredWorld exampleVector 5 (7 / 10) = getMockSearchResults"
    by blast
  from searchVectors_failure_gives_mock [of exampleWorld exampleVector 5 "7 / 10"
      "JsError ''connect ECONNREFUSED'' None" "[]"] key(2) none
  have 4: "searchVectors exampleWorld exampleVector 5 (7 / 10) = []"
    by blast
  from searchVectors_failure_gives_mock [of twoHitsWorld exampleVector 5 "7 / 10"
      "JsError ''connect ECONNREFUSED'' None" "[hit ''doc-1'' (85 / 100), hit ''doc-2'' (6 / 10)]"]
    key(3) two
  have "searchVectors twoHitsWorld exampleVector 5 (7 / 10) =
      map (\<lambda>result. \<lparr>c_id = h_id result, c_score = h_score result,
                       c_payload = Some (case h_payload result of
                                           None \<Rightarrow> emptyPayload | Some p \<Rightarrow> p)\<rparr>)
        [hit ''doc-1'' (85 / 100), hit ''doc-2'' (6 / 10)]"
    by blast
  then have 5: "map c_id (searchVectors twoHitsWorld exampleVector 5 (7 / 10)) = [''doc-1'', ''doc-2'']"
    "map c_score (searchVectors twoHitsWorld exampleVector 5 (7 / 10)) = [85 / 100, 6 / 10]"
    by (simp_all add: hit_def)
  from down 1 garbled 2 nokey(1) 3 key(1) none 4 two 5 show ?thesis
    by simp
qed

section \<open>Embedding client: attempts, waits and the mock embedding\<close>

lemma embedLoop_unfold:
  "attempt \<le> maxRetries \<Longrightarrow>
   embedLoop reply maxRetries attempt =
     (case jinaAttempt (reply attempt) of
        Inr v \<Rightarrow> (Inr v, [EmbedRequest attempt])
      | Inl e \<Rightarrow>
          if attempt = maxRetries \<or> clientError e then (Inl e, [EmbedRequest attempt])
          else
            (case embedLoop reply maxRetries (Suc attempt) of
               (r, tr) \<Rightarrow> (r, EmbedRequest attempt # Delay (1000 * attempt) # tr)))"
  by (subst embedLoop.simps) simp

lemma embedLoop_done: "\<not> attempt \<le> maxRetries \<Longrightarrow> embedLoop reply maxRetries attempt = (Inr EUndefined, [])"
  by (subst embedLoop.simps) simp

lemma embedLoop_requests:
  "length (filter isEmbedRequest (snd (embedLoop reply maxRetries attempt))) \<le> Suc maxRetries - attempt"
proof (induction reply maxRetries attempt rule: embedLoop.induct)
  case (1 reply maxRetries attempt)
  show ?case
  proof (cases "attempt \<le> maxRetries")
    case False
    then show ?thesis by (simp add: embedLoop_done)
  next
    case True
    note unf = embedLoop_unfold [OF True, of reply]
    show ?thesis
    proof (cases "jinaAttempt (reply attempt)")
      case (Inr v)
      with unf True show ?thesis by simp
    next
      case (Inl e)
      show ?thesis
      proof (cases "attempt = maxRetries \<or> clientError e")
        case True
        with unf Inl \<open>attempt \<le> maxRetries\<close> show ?thesis by auto
      next
        case False
        from "1.IH" [OF True Inl False]
        have "length (filter isEmbedRequest (snd (embedLoop reply maxRetries (Suc attempt))))
                \<le> Suc maxRetries - Suc attempt" .
        moreover from False True have "attempt < maxRetries" by simp
        ultimately show ?thesis using unf Inl False by (simp split: prod.splits)
      qed
    qed
  qed
qed

lemma embedLoop_delays:
  "Delay d \<in> set (snd (embedLoop reply maxRetries attempt)) \<Longrightarrow>
   \<exists>k. attempt \<le> k \<and> k < maxRetries \<and> d = 1000 * k"
proof (induction reply maxRetries attempt rule: embedLoop.induct)
  case (1 reply maxRetries attempt)
  show ?case
  proof (cases "attempt \<le> maxRetries")
    case False
    with "1.prems" show ?thesis by (simp add: embedLoop_done)
  next
    case True
    note unf = embedLoop_unfold [OF True, of reply]
    show ?thesis
    proof (cases "jinaAttempt (reply attempt)")
      case (Inr v)
      with unf "1.prems" show ?thesis by simp
    next
      case (Inl e)
      show ?thesis
      proof (cases "attempt = maxRetries \<or> clientError e")
        case True
        with unf Inl "1.prems" show ?thesis by auto
      next
        case False
        with True have lt: "attempt < maxRetries" by simp
        from "1.prems" unf Inl False
        have "d = 1000 * attempt \<or> Delay d \<in> set (snd (embedLoop reply maxRetries (Suc attempt)))"
          by (auto split: prod.splits)
        then show ?thesis
        proof
          assume "d = 1000 * attempt"
          with lt show ?thesis by auto
        next
          assume "Delay d \<in> set (snd (embedLoop reply maxRetries (Suc attempt)))"
          from "1.IH" [OF True Inl False this] obtain k
            where "Suc attempt \<le> k" "k < maxRetries" "d = 1000 * k" by blast
          then show ?thesis by (intro exI [of _ k]) simp
        qed
      qed
    qed
  qed
qed

lemma embedLoop_all_fail:
  "\<forall>n. \<exists>e. jinaAttempt (reply n) = Inl e \<Longrightarrow> attempt \<le> maxRetries \<Longrightarrow>
   \<exists>e. fst (embedLoop reply maxRetries attempt) = Inl e"
proof (induction reply maxRetries attempt rule: embedLoop.induct)
  case (1 reply maxRetries attempt)
  note unf = embedLoop_unfold [OF "1.prems"(2), of reply]
  from "1.prems"(1) obtain e where e: "jinaAttempt (reply attempt) = Inl e" by blast
  show ?case
  proof (cases "attempt = maxRetries \<or> clientError e")
    case True
    with unf e show ?thesis by auto
  next
    case False
    with "1.prems"(2) have "Suc attempt \<le> maxRetries" by simp
    from "1.IH" [OF "1.prems"(2) e False "1.prems"(1) this]
    obtain e' where "fst (embedLoop reply maxRetries (Suc attempt)) = Inl e'" by blast
    with unf e False show ?thesis by (auto split: prod.splits)
  qed
qed

lemma embedLoop_trace:
  assumes "a \<le> n" and "n \<le> maxRetries"
    and "\<forall>k. a \<le> k \<and> k < n \<longrightarrow> (\<exists>e. jinaAttempt (reply k) = Inl e \<and> \<not> clientError e)"
    and "case jinaAttempt (reply n) of Inr v \<Rightarrow> True | Inl e \<Rightarrow> n = maxRetries \<or> clientError e"
  shows "embedLoop reply maxRetries a =
     (jinaAttempt (reply n),
      concat (map (\<lambda>k. [EmbedRequest k, Delay (1000 * k)]) [a..<n]) @ [EmbedRequest n])"
  using assms
proof (induction "n - a" arbitrary: a)
  case 0
  then have an: "a = n" by simp
  from 0 have le: "a \<le> maxRetries" by simp
  show ?case
    using "0.prems"(4) embedLoop_unfold [OF le, of reply] an
    by (cases "jinaAttempt (reply n)") auto
next
  case (Suc m)
  then have lt: "a < n" and le: "a \<le> maxRetries" and ne: "a \<noteq> maxRetries" by simp_all
  from Suc.prems(3) lt obtain e where e: "jinaAttempt (reply a) = Inl e" "\<not> clientError e"
    by auto
  have m: "m = n - Suc a" using Suc.hyps(2) by simp
  have later: "\<forall>k. Suc a \<le> k \<and> k < n \<longrightarrow> (\<exists>e. jinaAttempt (reply k) = Inl e \<and> \<not> clientError e)"
    using Suc.prems(3) by simp
  from lt have "Suc a \<le> n" by simp
  from Suc.hyps(1) [OF m this Suc.prems(2) later Suc.prems(4)]
  have rest: "embedLoop reply maxRetries (Suc a) =
     (jinaAttempt (reply n),
      concat (map (\<lambda>k. [EmbedRequest k, Delay (1000 * k)]) [Suc a..<n]) @ [EmbedRequest n])" .
  have upt: "[a..<n] = a # [Suc a..<n]" using lt by (rule upt_conv_Cons)
  show ?case
    using embedLoop_unfold [OF le, of reply] e ne rest by (simp add: upt)
qed

text \<open>
  C5. The claim: on the live query path \<open>generateEmbedding\<close> makes up to 3 attempts and,
  when they are used up, propagates an error, never a placeholder vector. The
  orchestrator calls the \<open>generateEmbedding\<close> of its embedding module with the default
  \<open>maxRetries = 2\<close>, and the outer \<open>catch\<close> of that function returns
  \<open>generateMockEmbedding(text)\<close>: with the provider answering 503 to every request there
  are two requests, one wait of 1000 ms, and the mock embedding is returned.
\<close>

theorem generateEmbedding_down_returns_mock:
  "generateEmbedding embedDownWorld ''hello world'' 2 =
     (generateMockEmbedding ''hello world'', [EmbedRequest 1, Delay 1000, EmbedRequest 2])"
  by (simp add: embedDown_trace generateMockEmbedding_def)

text \<open>
  C5, as amended: on the live query path \<open>generateEmbedding\<close> is called with its default
  \<open>maxRetries = 2\<close>. It never throws. With no API key configured it asks nothing and
  returns the mock embedding of the text. With the key configured (and \<open>maxRetries\<close>
  not 0, where it asks nothing and returns \<open>undefined\<close>) it sends request
  1, and after each failed attempt \<open>k\<close> before the last whose failure carries no HTTP
  status below 500 it waits \<open>1000 * k\<close> ms and sends request \<open>k + 1\<close>; the first
  attempt that succeeds ends the loop with the provider's embedding; a failure with
  a status below 500, or of attempt \<open>maxRetries\<close>, ends it with the mock embedding of
  the text. So there are at most \<open>maxRetries\<close> requests, every wait is \<open>1000 * k\<close> ms
  for an attempt \<open>k\<close> before the last, and when every attempt fails the result is the
  mock embedding.
\<close>

theorem generateEmbedding_mock_after_failures:
  "length (filter isEmbedRequest (snd (generateEmbedding w text maxRetries))) \<le> maxRetries \<and>
   (Delay d \<in> set (snd (generateEmbedding w text maxRetries)) \<longrightarrow>
      (\<exists>k. 1 \<le> k \<and> k < maxRetries \<and> d = 1000 * k)) \<and>
   ((\<forall>n. \<exists>e. jinaAttempt (jina w (substring0 8192 text) n) = Inl e) \<and> 1 \<le> maxRetries \<longrightarrow>
      fst (generateEmbedding w text maxRetries) = generateMockEmbedding text) \<and>
   (\<not> truthy (JINA_API_KEY w) \<longrightarrow>
      generateEmbedding w text maxRetries = (generateMockEmbedding text, [])) \<and>
   (truthy (JINA_API_KEY w) \<and> 1 \<le> n \<and> n \<le> maxRetries \<and>
    (\<forall>k. 1 \<le> k \<and> k < n \<longrightarrow>
       (\<exists>e. jinaAttempt (jina w (substring0 8192 text) k) = Inl e \<and> \<not> clientError e)) \<and>
    jinaAttempt (jina w (substring0 8192 text) n) = Inr v \<longrightarrow>
      generateEmbedding w text maxRetries =
        (v, concat (map (\<lambda>k. [EmbedRequest k, Delay (1000 * k)]) [1..<n]) @ [EmbedRequest n])) \<and>
   (truthy (JINA_API_KEY w) \<and> 1 \<le> n \<and> n \<le> maxRetries \<and>
    (\<forall>k. 1 \<le> k \<and> k < n \<longrightarrow>
       (\<exists>e. jinaAttempt (jina w (substring0 8192 text) k) = Inl e \<and> \<not> clientError e)) \<and>
    jinaAttempt (jina w (substring0 8192 text) n) = Inl error \<and>
    (n = maxRetries \<or> clientError error) \<longrightarrow>
      generateEmbedding w text maxRetries =
        (generateMockEmbedding text,
         concat (map (\<lambda>k. [EmbedRequest k, Delay (1000 * k)]) [1..<n]) @ [EmbedRequest n])) \<and>
   (truthy (JINA_API_KEY w) \<and> maxRetries = 0 \<longrightarrow>
      generateEmbedding w text maxRetries = (EUndefined, []))"
proof (cases "truthy (JINA_API_KEY w)")
  case False
  then show ?thesis by (simp add: generateEmbedding_def generateEmbeddingTry_def)
next
  case True
  let ?loop = "embedLoop (jina w (substring0 8192 text)) maxRetries 1"
  have tr: "snd (generateEmbedding w text maxRetries) = snd ?loop"
    using True by (simp add: generateEmbedding_def generateEmbeddingTry_def split: prod.splits sum.splits)
  have "length (filter isEmbedRequest (snd ?loop)) \<le> Suc maxRetries - 1"
    by (rule embedLoop_requests)
  then have a: "length (filter isEmbedRequest (snd (generateEmbedding w text maxRetries))) \<le> maxRetries"
    using tr by simp
  have b: "Delay d \<in> set (snd (generateEmbedding w text maxRetries)) \<longrightarrow>
      (\<exists>k. 1 \<le> k \<and> k < maxRetries \<and> d = 1000 * k)"
    using embedLoop_delays [of d "(jina w (substring0 8192 text))" maxRetries 1] tr by auto
  have c: "(\<forall>n. \<exists>e. jinaAttempt (jina w (substring0 8192 text) n) = Inl e) \<and> 1 \<le> maxRetries \<longrightarrow>
      fst (generateEmbedding w text maxRetries) = generateMockEmbedding text"
  proof
    assume h: "(\<forall>n. \<exists>e. jinaAttempt (jina w (substring0 8192 text) n) = Inl e) \<and> 1 \<le> maxRetries"
    then obtain e where "fst ?loop = Inl e"
      using embedLoop_all_fail [of "(jina w (substring0 8192 text))" 1 maxRetries] by auto
    then show "fst (generateEmbedding w text maxRetries) = generateMockEmbedding text"
      using True by (auto simp: generateEmbedding_def generateEmbeddingTry_def split: prod.splits)
  qed
  have d: "\<not> truthy (JINA_API_KEY w) \<longrightarrow>
      generateEmbedding w text maxRetries = (generateMockEmbedding text, [])"
    using True by simp
  have e: "truthy (JINA_API_KEY w) \<and> 1 \<le> n \<and> n \<le> maxRetries \<and>
    (\<forall>k. 1 \<le> k \<and> k < n \<longrightarrow>
       (\<exists>e. jinaAttempt (jina w (substring0 8192 text) k) = Inl e \<and> \<not> clientError e)) \<and>
    jinaAttempt (jina w (substring0 8192 text) n) = Inr v \<longrightarrow>
      generateEmbedding w text maxRetries =
        (v, concat (map (\<lambda>k. [EmbedRequest k, Delay (1000 * k)]) [1..<n]) @ [EmbedRequest n])"
  proof
    assume h: "truthy (JINA_API_KEY w) \<and> 1 \<le> n \<and> n \<le> maxRetries \<and>
      (\<forall>k. 1 \<le> k \<and> k < n \<longrightarrow>
         (\<exists>e. jinaAttempt (jina w (substring0 8192 text) k) = Inl e \<and> \<not> clientError e)) \<and>
      jinaAttempt (jina w (substring0 8192 text) n) = Inr v"
    then have "embedLoop (jina w (substring0 8192 text)) maxRetries 1 =
        (jinaAttempt (jina w (substring0 8192 text) n), concat (map (\<lambda>k. [EmbedRequest k, Delay (1000 * k)]) [1..<n]) @ [EmbedRequest n])"
      by (intro embedLoop_trace) simp_all
    with h show "generateEmbedding w text maxRetries =
        (v, concat (map (\<lambda>k. [EmbedRequest k, Delay (1000 * k)]) [1..<n]) @ [EmbedRequest n])"
      by (simp add: generateEmbedding_def generateEmbeddingTry_def)
  qed
  have f: "truthy (JINA_API_KEY w) \<and> 1 \<le> n \<and> n \<le> maxRetries \<and>
    (\<forall>k. 1 \<le> k \<and> k < n \<longrightarrow>
       (\<exists>e. jinaAttempt (jina w (substring0 8192 text) k) = Inl e \<and> \<not> clientError e)) \<and>
    jinaAttempt (jina w (substring0 8192 text) n) = Inl error \<and>
    (n = maxRetries \<or> clientError error) \<longrightarrow>
      generateEmbedding w text maxRetries =
        (generateMockEmbedding text,
         concat (map (\<lambda>k. [EmbedRequest k, Delay (1000 * k)]) [1..<n]) @ [EmbedRequest n])"
  proof
    assume h: "truthy (JINA_API_KEY w) \<and> 1 \<le> n \<and> n \<le> maxRetries \<and>
      (\<forall>k. 1 \<le> k \<and> k < n \<longrightarrow>
         (\<exists>e. jinaAttempt (jina w (substring0 8192 text) k) = Inl e \<and> \<not> clientError e)) \<and>
      jinaAttempt (jina w (substring0 8192 text) n) = Inl error \<and>
      (n = maxRetries \<or> clientError error)"
    then have "embedLoop (jina w (substring0 8192 text)) maxRetries 1 =
        (jinaAttempt (jina w (substring0 8192 text) n), concat (map (\<lambda>k. [EmbedRequest k, Delay (1000 * k)]) [1..<n]) @ [EmbedRequest n])"
      by (intro embedLoop_trace) auto
    with h show "generateEmbedding w text maxRetries =
        (generateMockEmbedding text,
         concat (map (\<lambda>k. [EmbedRequest k, Delay (1000 * k)]) [1..<n]) @ [EmbedRequest n])"
      by (simp add: generateEmbedding_def generateEmbeddingTry_def)
  qed
  have g: "truthy (JINA_API_KEY w) \<and> maxRetries = 0 \<longrightarrow>
      generateEmbedding w text maxRetries = (EUndefined, [])"
    by (simp add: generateEmbedding_def generateEmbeddingTry_def embedLoop_done)
  from a b c d e f g show ?thesis by blast
qed

theorem generateEmbedding_mock_after_failures_witness:
  "Delay 1000 \<in> set (snd (generateEmbedding embedDownWorld ''hello world'' 2)) \<and>
   (\<exists>k. 1 \<le> k \<and> k < (2::nat) \<and> (1000::nat) = 1000 * k) \<and>
   fst (generateEmbedding embedDownWorld ''hello world'' 2) = generateMockEmbedding ''hello world'' \<and>
   length (filter isEmbedRequest (snd (generateEmbedding embedDownWorld ''hello world'' 2))) \<le> 2 \<and>
   generateEmbedding embedDownWorld ''hello world'' 2 =
     (generateMockEmbedding ''hello world'', [EmbedRequest 1, Delay 1000, EmbedRequest 2]) \<and>
   jinaAttempt (jina embedRefusedWorld (substring0 8192 ''hello world'') 1) =
     Inl (JsError ''Request failed with status code 401'' (Some 401)) \<and>
   generateEmbedding embedRefusedWorld ''hello world'' 2 =
     (generateMockEmbedding ''hello world'', [EmbedRequest 1]) \<and>
   generateEmbedding embedRecoversWorld ''hello world'' 2 =
     (Vector [1 / 2, 1 / 4], [EmbedRequest 1, Delay 1000, EmbedRequest 2]) \<and>
   generateEmbedding exampleWorld ''hello world'' 2 = (Vector [1 / 2, 1 / 4], [EmbedRequest 1]) \<and>
   JINA_API_KEY unconfiguredWorld = None \<and>
   generateEmbedding unconfiguredWorld ''hello world'' 2 = (generateMockEmbedding ''hello world'', [])"
proof -
  note t = generateEmbedding_mock_after_failures [of embedDownWorld "''hello world''" 2 1000 2
      "Vector []" "JsError ''Request failed with status code 503'' (Some 503)"]
  have key: "truthy (JINA_API_KEY embedDownWorld)" "truthy (JINA_API_KEY embedRefusedWorld)"
    "truthy (JINA_API_KEY embedRecoversWorld)" "truthy (JINA_API_KEY exampleWorld)"
    by (simp_all add: embedDownWorld_def embedRefusedWorld_def embedRecoversWorld_def exampleWorld_def)
  have nokey: "JINA_API_KEY unconfiguredWorld = None" "\<not> truthy (JINA_API_KEY unconfiguredWorld)"
    by (simp_all add: unconfiguredWorld_def exampleWorld_def)
  have down: "\<And>k. jinaAttempt (jina embedDownWorld (substring0 8192 ''hello world'') k) =
      Inl (JsError ''Request failed with status code 503'' (Some 503))"
    by (simp add: embedDownWorld_def exampleWorld_def jinaDown_def)
  have refused: "jinaAttempt (jina embedRefusedWorld (substring0 8192 ''hello world'') 1) =
      Inl (JsError ''Request failed with status code 401'' (Some 401))"
    by (simp add: embedRefusedWorld_def exampleWorld_def jinaRefuses_def)
  have recovers: "\<And>k. k < 2 \<Longrightarrow> 1 \<le> k \<Longrightarrow>
      jinaAttempt (jina embedRecoversWorld (substring0 8192 ''hello world'') k) =
        Inl (JsError ''Request failed with status code 503'' (Some 503))"
    "jinaAttempt (jina embedRecoversWorld (substring0 8192 ''hello world'') 2) = Inr (Vector [1 / 2, 1 / 4])"
    by (auto simp: embedRecoversWorld_def exampleWorld_def jinaRecovers_def)
  have answers: "jinaAttempt (jina exampleWorld (substring0 8192 ''hello world'') 1) = Inr (Vector [1 / 2, 1 / 4])"
    by (simp add: exampleWorld_def jinaAnswers_def)
  have two: "concat (map (\<lambda>k. [EmbedRequest k, Delay (1000 * k)]) [1..<2]) @ [EmbedRequest 2] =
      [EmbedRequest 1, Delay 1000, EmbedRequest 2]"
    "concat (map (\<lambda>k. [EmbedRequest k, Delay (1000 * k)]) [1..<1]) @ [EmbedRequest 1] =
      [EmbedRequest 1]"
    by (simp_all add: numeral_2_eq_2)
  have d: "Delay 1000 \<in> set (snd (generateEmbedding embedDownWorld ''hello world'' 2))"
    by (simp add: embedDown_trace)
  have f: "(\<forall>n. \<exists>e. jinaAttempt (jina embedDownWorld (substring0 8192 ''hello world'') n) = Inl e) \<and> 1 \<le> (2::nat)"
    by (simp add: down)
  from t d f have old: "\<exists>k. 1 \<le> k \<and> k < (2::nat) \<and> (1000::nat) = 1000 * k"
    "fst (generateEmbedding embedDownWorld ''hello world'' 2) = generateMockEmbedding ''hello world''"
    "length (filter isEmbedRequest (snd (generateEmbedding embedDownWorld ''hello world'' 2))) \<le> 2"
    by blast+
  from t key(1) down have 1: "generateEmbedding embedDownWorld ''hello world'' 2 =
     (generateMockEmbedding ''hello world'', [EmbedRequest 1, Delay 1000, EmbedRequest 2])"
    unfolding two by simp
  from generateEmbedding_mock_after_failures [of embedRefusedWorld "''hello world''" 2 1000 1
      "Vector []" "JsError ''Request failed with status code 401'' (Some 401)"] key(2) refused
  have 2: "generateEmbedding embedRefusedWorld ''hello world'' 2 =
     (generateMockEmbedding ''hello world'', [EmbedRequest 1])"
    unfolding two by simp
  from generateEmbedding_mock_after_failures [of embedRecoversWorld "''hello world''" 2 1000 2
      "Vector [1 / 2, 1 / 4]" "JsError ''Request failed with status code 503'' (Some 503)"]
    key(3) recovers
  have 3: "generateEmbedding embedRecoversWorld ''hello world'' 2 =
     (Vector [1 / 2, 1 / 4], [EmbedRequest 1, Delay 1000, EmbedRequest 2])"
    unfolding two by simp
  from generateEmbedding_mock_after_failures [of exampleWorld "''hello world''" 2 1000 1
      "Vector [1 / 2, 1 / 4]" "JsError ''Request failed with status code 503'' (Some 503)"]
    key(4) answers
  have 4: "generateEmbedding exampleWorld ''hello world'' 2 = (Vector [1 / 2, 1 / 4], [EmbedRequest 1])"
    unfolding two by simp
  from generateEmbedding_mock_after_failures [of unconfiguredWorld "''hello world''" 2 1000 1
      "Vector []" "JsError ''Request failed with status code 503'' (Some 503)"] nokey(2)
  have 5: "generateEmbedding unconfiguredWorld ''hello world'' 2 = (generateMockEmbedding ''hello world'', [])"
    by blast
  from d old 1 refused 2 3 4 nokey(1) 5 show ?thesis
    by simp
qed

section \<open>Orchestrator: a query that validation refuses\<close>

lemma validateQuery_refuses:
  assumes "length (trim query) < 3 \<or> 1000 < length (trim query)"
  shows "\<exists>err. validateQuery (JStr query) = Invalid err"
  using assms by (auto simp: Let_def)

text \<open>
  C6. The claim: a query whose trimmed length is outside 3..1000 makes the
  orchestration propagate an error to its caller, and it is the only case that does.
  \<open>generateRAGResponse\<close> throws the validation error inside its own \<open>try\<close> block, and its
  \<open>catch\<close> block returns a result: the query \<open>hi\<close> gets an ordinary return value, with
  \<open>modelUsed\<close> \<open>error-fallback\<close>. The same kind of result is returned when the embedding
  that comes back is no array, so the refused query is not the only case either.
\<close>

theorem generateRAGResponse_short_query_returns:
  "generateRAGResponse exampleWorld (JStr ''hi'') ''s1'' =
     Inr (errorFallback exampleWorld ''hi''
            (JsError ''Invalid query: Query is too short (minimum 3 characters)'' None)) \<and>
   generateRAGResponse garbledWorld (JStr techQuery) ''s1'' =
     Inr (errorFallback garbledWorld techQuery
            (JsError ''Failed to generate embedding for query'' None))"
proof -
  have "generateRAGResponse exampleWorld (JStr ''hi'') ''s1'' =
     Inr (errorFallback exampleWorld ''hi''
            (JsError ''Invalid query: Query is too short (minimum 3 characters)'' None))"
    by (simp add: ragTry_def trim_hi)
  moreover have "generateRAGResponse garbledWorld (JStr techQuery) ''s1'' =
     Inr (errorFallback garbledWorld techQuery
            (JsError ''Failed to generate embedding for query'' None))"
    by (simp add: ragTry_def validate_tech generateEmbedding_def generateEmbeddingTry_def
        garbledWorld_def exampleWorld_def jinaGarbled_def embedLoop.simps
        del: validateQuery.simps)
  ultimately show ?thesis by simp
qed

text \<open>
  C6, as amended: for every string query whose trimmed length is below 3 or above
  1000, \<open>generateRAGResponse\<close> does not throw; whatever the services would answer, it
  returns the result of its \<open>catch\<close> block, with no sources, \<open>modelUsed\<close> \<open>error-fallback\<close>
  and \<open>metadata.error\<close> the text \<open>Invalid query: \<close> followed by the reason. A query that
  is no string makes the function throw.
\<close>

theorem generateRAGResponse_invalid_query:
  "(length (trim query) < 3 \<or> 1000 < length (trim query) \<longrightarrow>
     (\<exists>err. validateQuery (JStr query) = Invalid err \<and>
        generateRAGResponse w (JStr query) sessionId =
          Inr (errorFallback w query (JsError (''Invalid query: '' @ err) None)) \<and>
        sources (errorFallback w query (JsError (''Invalid query: '' @ err) None)) = [] \<and>
        obj_get (metadata (errorFallback w query (JsError (''Invalid query: '' @ err) None)))
          ''modelUsed'' = JStr ''error-fallback'' \<and>
        obj_get (metadata (errorFallback w query (JsError (''Invalid query: '' @ err) None)))
          ''error'' = JStr (''Invalid query: '' @ err))) \<and>
   ((\<forall>s. q \<noteq> JStr s) \<longrightarrow> (\<exists>e. generateRAGResponse w q sessionId = Inl e))"
proof -
  have strings: "length (trim query) < 3 \<or> 1000 < length (trim query) \<longrightarrow>
     (\<exists>err. validateQuery (JStr query) = Invalid err \<and>
        generateRAGResponse w (JStr query) sessionId =
          Inr (errorFallback w query (JsError (''Invalid query: '' @ err) None)) \<and>
        sources (errorFallback w query (JsError (''Invalid query: '' @ err) None)) = [] \<and>
        obj_get (metadata (errorFallback w query (JsError (''Invalid query: '' @ err) None)))
          ''modelUsed'' = JStr ''error-fallback'' \<and>
        obj_get (metadata (errorFallback w query (JsError (''Invalid query: '' @ err) None)))
          ''error'' = JStr (''Invalid query: '' @ err))"
  proof
    assume "length (trim query) < 3 \<or> 1000 < length (trim query)"
    from validateQuery_refuses [OF this] obtain err
      where v: "validateQuery (JStr query) = Invalid err"
      by blast
    then have "ragTry w query = Inl (JsError (''Invalid query: '' @ err) None)"
      by (simp add: ragTry_def del: validateQuery.simps)
    then have "generateRAGResponse w (JStr query) sessionId =
        Inr (errorFallback w query (JsError (''Invalid query: '' @ err) None))"
      by simp
    with v show "\<exists>err. validateQuery (JStr query) = Invalid err \<and>
        generateRAGResponse w (JStr query) sessionId =
          Inr (errorFallback w query (JsError (''Invalid query: '' @ err) None)) \<and>
        sources (errorFallback w query (JsError (''Invalid query: '' @ err) None)) = [] \<and>
        obj_get (metadata (errorFallback w query (JsError (''Invalid query: '' @ err) None)))
          ''modelUsed'' = JStr ''error-fallback'' \<and>
        obj_get (metadata (errorFallback w query (JsError (''Invalid query: '' @ err) None)))
          ''error'' = JStr (''Invalid query: '' @ err)"
      by (auto simp: errorFallback_def)
  qed
  have others: "(\<forall>s. q \<noteq> JStr s) \<longrightarrow> (\<exists>e. generateRAGResponse w q sessionId = Inl e)"
    by (cases q) auto
  from strings others show ?thesis by blast
qed

theorem generateRAGResponse_invalid_query_witness:
  "(length (trim ''hi'') < 3 \<or> 1000 < length (trim ''hi'')) \<and>
   (\<exists>err. validateQuery (JStr ''hi'') = Invalid err \<and>
      generateRAGResponse exampleWorld (JStr ''hi'') ''s1'' =
        Inr (errorFallback exampleWorld ''hi'' (JsError (''Invalid query: '' @ err) None)) \<and>
      sources (errorFallback exampleWorld ''hi'' (JsError (''Invalid query: '' @ err) None)) = [] \<and>
      obj_get (metadata (errorFallback exampleWorld ''hi'' (JsError (''Invalid query: '' @ err) None)))
        ''modelUsed'' = JStr ''error-fallback'' \<and>
      obj_get (metadata (errorFallback exampleWorld ''hi'' (JsError (''Invalid query: '' @ err) None)))
        ''error'' = JStr (''Invalid query: '' @ err)) \<and>
   (\<exists>e. generateRAGResponse exampleWorld JNull ''s1'' = Inl e)"
proof -
  note t = generateRAGResponse_invalid_query [of "''hi''" exampleWorld "''s1''" JNull]
  have h: "length (trim ''hi'') < 3 \<or> 1000 < length (trim ''hi'')"
    by (simp add: trim_hi)
  have n: "\<forall>s. JNull \<noteq> JStr s" by simp
  from t h n show ?thesis by blast
qed

section \<open>Orchestrator: the relevance filter\<close>








section \<open>Session store: what a save and a load do\<close>

lemma configuredTTL_received [simp]: "configuredTTL (c\<lparr>received := x\<rparr>) = configuredTTL c"
  by (simp add: configuredTTL_def)

lemma configuredTTL_kv [simp]: "configuredTTL (c\<lparr>kv := x\<rparr>) = configuredTTL c"
  by (simp add: configuredTTL_def)

lemma saveSession_up:
  assumes "up c" and "0 < configuredTTL c"
  shows "saveSession (Some c) sid msgs now =
     (Inr (),
      Some (c\<lparr>kv := (kv c)(sessionKey sid \<mapsto>
                  (\<lparr>sd_sessionId = sid, sd_messages = msgs, sd_lastUpdated = now,
                    sd_messageCount = length msgs\<rparr>, nat (configuredTTL c))),
              received := received c @
                [SETEX (sessionKey sid) (configuredTTL c)
                   \<lparr>sd_sessionId = sid, sd_messages = msgs, sd_lastUpdated = now,
                    sd_messageCount = length msgs\<rparr>]\<rparr>))"
  using assms by (simp add: saveSession_def redis_setex_def Let_def)

lemma saveSession_Inr:
  assumes "saveSession rc sid msgs now = (Inr u, rc')"
  shows "\<exists>c. rc = Some c \<and> up c \<and> 0 < configuredTTL c"
  using assms
  by (cases rc) (auto simp: saveSession_def redis_setex_def Let_def split: if_splits)

lemma saved_session_expires:
  assumes "saveSession (Some c) sid msgs now = (Inr (), Some c')"
  shows "history (Some (elapse n c')) sid = (if n < nat (configuredTTL c) then msgs else [])"
proof -
  from saveSession_Inr [OF assms] have "up c" and "0 < configuredTTL c" by auto
  from saveSession_up [OF this, of sid msgs now] assms show ?thesis
    by (auto simp: history_def storedMessages_def elapse_def)
qed

lemma getSession_history:
  assumes "up c"
  shows "getSession (Some c) sid =
     (history (Some c) sid, Some (c\<lparr>received := received c @ [GET (sessionKey sid)]\<rparr>))"
  using assms
  by (auto simp: getSession_def redis_get_def history_def storedMessages_def split: option.splits)

lemma sendMessage_load_ok:
  assumes "up c"
    and "messageSchemaValid env (body_sessionId req) (body_message req)"
    and "validateQuery (JStr (body_message req)) = Valid vq"
  shows "sendMessage_load env (Some c) req =
     (Loaded vq (history (Some c) (body_sessionId req)),
      Some (c\<lparr>received := received c @ [GET (sessionKey (body_sessionId req))]\<rparr>))"
  using assms by (simp add: sendMessage_load_def getSession_history del: validateQuery.simps)

lemma sendMessage_finish_ok:
  assumes "up c" and "0 < configuredTTL c"
    and "generateRAGResponse w (JStr vq) (body_sessionId req) = Inr rag"
  shows "\<exists>body c'. sendMessage_finish w env (Some c) req vq msgs = (Status200 body, Some c') \<and>
     up c' \<and> REDIS_TTL c' = REDIS_TTL c \<and>
     kv c' = (kv c)(sessionKey (body_sessionId req) \<mapsto>
        (\<lparr>sd_sessionId = body_sessionId req,
          sd_messages = msgs @ [restUserMessage env req vq, restBotMessage env rag],
          sd_lastUpdated = lastSaveTimestamp env, sd_messageCount = length msgs + 2\<rparr>,
         nat (configuredTTL c))) \<and>
     received c' = received c @
       [SETEX (sessionKey (body_sessionId req)) (configuredTTL c)
         \<lparr>sd_sessionId = body_sessionId req,
          sd_messages = msgs @ [restUserMessage env req vq, restBotMessage env rag],
          sd_lastUpdated = lastSaveTimestamp env, sd_messageCount = length msgs + 2\<rparr>]"
  using assms by (simp add: sendMessage_finish_def Let_def saveSession_up)

lemma send_message_ok:
  assumes "up c" and "0 < configuredTTL c"
    and "messageSchemaValid env (data_sessionId req) (data_message req)"
    and "validateQuery (JStr (data_message req)) = Valid vq"
    and "generateRAGResponse w (JStr vq) (data_sessionId req) = Inr rag"
  shows "\<exists>c'. send_message w env (Some c) req =
       ([ToRoom (data_sessionId req) (NewMessage (socketUserMessage env req vq)),
         ToRoom (data_sessionId req) (BotTyping True),
         ToRoom (data_sessionId req) (BotTyping False),
         ToRoom (data_sessionId req) (NewMessage (socketBotMessage env rag))], Some c') \<and>
     up c' \<and> REDIS_TTL c' = REDIS_TTL c \<and>
     kv c' = (kv c)(sessionKey (data_sessionId req) \<mapsto>
        (\<lparr>sd_sessionId = data_sessionId req,
          sd_messages = history (Some c) (data_sessionId req) @
            [socketUserMessage env req vq, socketBotMessage env rag],
          sd_lastUpdated = lastSaveTimestamp env,
          sd_messageCount = length (history (Some c) (data_sessionId req)) + 2\<rparr>,
         nat (configuredTTL c))) \<and>
     received c' = received c @
       [GET (sessionKey (data_sessionId req)),
        SETEX (sessionKey (data_sessionId req)) (configuredTTL c)
         \<lparr>sd_sessionId = data_sessionId req,
          sd_messages = history (Some c) (data_sessionId req) @ [socketUserMessage env req vq],
          sd_lastUpdated = firstSaveTimestamp env,
          sd_messageCount = length (history (Some c) (data_sessionId req)) + 1\<rparr>,
        SETEX (sessionKey (data_sessionId req)) (configuredTTL c)
         \<lparr>sd_sessionId = data_sessionId req,
          sd_messages = history (Some c) (data_sessionId req) @
            [socketUserMessage env req vq, socketBotMessage env rag],
          sd_lastUpdated = lastSaveTimestamp env,
          sd_messageCount = length (history (Some c) (data_sessionId req)) + 2\<rparr>]"
  using assms
  by (simp add: send_message_def Let_def getSession_history saveSession_up del: validateQuery.simps)

lemma configuredTTL_cong: "REDIS_TTL c' = REDIS_TTL c \<Longrightarrow> configuredTTL c' = configuredTTL c"
  by (simp add: configuredTTL_def)

lemma history_received [simp]: "history (Some (c\<lparr>received := x\<rparr>)) sid = history (Some c) sid"
  by (simp add: history_def storedMessages_def)

section \<open>Two turns on one session, step by step\<close>

lemma stepTurn_load:
  assumes "up c"
    and "messageSchemaValid env (body_sessionId req) (body_message req)"
    and "validateQuery (JStr (body_message req)) = Valid vq"
  shows "\<exists>c'. stepTurn (w, env, req) (Waiting, Some c) =
            (Pending vq (history (Some c) (body_sessionId req)), Some c') \<and>
          up c' \<and> REDIS_TTL c' = REDIS_TTL c \<and> kv c' = kv c"
  using sendMessage_load_ok [OF assms] assms(1) by simp

lemma stepTurn_finish:
  assumes "up c" and "0 < configuredTTL c"
    and "generateRAGResponse w (JStr vq) (body_sessionId req) = Inr rag"
  shows "\<exists>body c'. stepTurn (w, env, req) (Pending vq msgs, Some c) = (Done (Status200 body), Some c') \<and>
          up c' \<and> REDIS_TTL c' = REDIS_TTL c \<and>
          history (Some c') (body_sessionId req) =
            msgs @ [restUserMessage env req vq, restBotMessage env rag]"
proof -
  from sendMessage_finish_ok [OF assms, of env msgs] obtain body c'
    where f: "sendMessage_finish w env (Some c) req vq msgs = (Status200 body, Some c')"
      and u: "up c'" and t: "REDIS_TTL c' = REDIS_TTL c"
      and k: "kv c' = (kv c)(sessionKey (body_sessionId req) \<mapsto>
        (\<lparr>sd_sessionId = body_sessionId req,
          sd_messages = msgs @ [restUserMessage env req vq, restBotMessage env rag],
          sd_lastUpdated = lastSaveTimestamp env, sd_messageCount = length msgs + 2\<rparr>,
         nat (configuredTTL c)))"
    by blast
  from k have "history (Some c') (body_sessionId req) =
      msgs @ [restUserMessage env req vq, restBotMessage env rag]"
    by (simp add: history_def storedMessages_def)
  with f u t show ?thesis by simp
qed

lemma run_serial:
  assumes c: "up c" "0 < configuredTTL c"
    and v1: "messageSchemaValid env1 (body_sessionId req1) (body_message req1)"
            "validateQuery (JStr (body_message req1)) = Valid q1"
    and v2: "messageSchemaValid env2 (body_sessionId req2) (body_message req2)"
            "validateQuery (JStr (body_message req2)) = Valid q2"
    and same: "body_sessionId req2 = body_sessionId req1"
    and r1: "generateRAGResponse w1 (JStr q1) (body_sessionId req1) = Inr rag1"
    and r2: "generateRAGResponse w2 (JStr q2) (body_sessionId req1) = Inr rag2"
  shows "\<exists>body1 body2 c'.
     runSchedule (w1, env1, req1) (w2, env2, req2) [First, First, Second, Second]
       (Waiting, Waiting, Some c) = (Done (Status200 body1), Done (Status200 body2), Some c') \<and>
     history (Some c') (body_sessionId req1) =
       history (Some c) (body_sessionId req1) @
         [restUserMessage env1 req1 q1, restBotMessage env1 rag1,
          restUserMessage env2 req2 q2, restBotMessage env2 rag2]"
proof -
  from stepTurn_load [OF c(1) v1, of w1] obtain c1
    where s1: "stepTurn (w1, env1, req1) (Waiting, Some c) =
            (Pending q1 (history (Some c) (body_sessionId req1)), Some c1)"
      and c1: "up c1" "REDIS_TTL c1 = REDIS_TTL c" "kv c1 = kv c"
    by blast
  have t1: "0 < configuredTTL c1" using c(2) configuredTTL_cong [OF c1(2)] by simp
  from stepTurn_finish [OF c1(1) t1 r1, of env1 "history (Some c) (body_sessionId req1)"] obtain body1 c2
    where s2: "stepTurn (w1, env1, req1) (Pending q1 (history (Some c) (body_sessionId req1)), Some c1) =
            (Done (Status200 body1), Some c2)"
      and c2: "up c2" "REDIS_TTL c2 = REDIS_TTL c1"
      and h2: "history (Some c2) (body_sessionId req1) =
            history (Some c) (body_sessionId req1) @ [restUserMessage env1 req1 q1, restBotMessage env1 rag1]"
    by blast
  have t2: "0 < configuredTTL c2" using t1 configuredTTL_cong [OF c2(2)] by simp
  from stepTurn_load [OF c2(1) v2, of w2] obtain c3
    where s3: "stepTurn (w2, env2, req2) (Waiting, Some c2) =
            (Pending q2 (history (Some c2) (body_sessionId req2)), Some c3)"
      and c3: "up c3" "REDIS_TTL c3 = REDIS_TTL c2" "kv c3 = kv c2"
    by blast
  have t3: "0 < configuredTTL c3" using t2 configuredTTL_cong [OF c3(2)] by simp
  from r2 same have r2': "generateRAGResponse w2 (JStr q2) (body_sessionId req2) = Inr rag2" by simp
  from stepTurn_finish [OF c3(1) t3 r2', of env2 "history (Some c2) (body_sessionId req2)"] obtain body2 c4
    where s4: "stepTurn (w2, env2, req2) (Pending q2 (history (Some c2) (body_sessionId req2)), Some c3) =
            (Done (Status200 body2), Some c4)"
      and h4: "history (Some c4) (body_sessionId req2) =
            history (Some c2) (body_sessionId req2) @ [restUserMessage env2 req2 q2, restBotMessage env2 rag2]"
    by blast
  have "runSchedule (w1, env1, req1) (w2, env2, req2) [First, First, Second, Second]
       (Waiting, Waiting, Some c) = (Done (Status200 body1), Done (Status200 body2), Some c4)"
    by (simp add: s1 s2 s3 s4 del: stepTurn.simps)
  moreover have "history (Some c4) (body_sessionId req1) =
       history (Some c) (body_sessionId req1) @
         [restUserMessage env1 req1 q1, restBotMessage env1 rag1,
          restUserMessage env2 req2 q2, restBotMessage env2 rag2]"
    using h4 h2 same by simp
  ultimately show ?thesis by blast
qed

lemma run_interleaved:
  assumes c: "up c" "0 < configuredTTL c"
    and v1: "messageSchemaValid env1 (body_sessionId req1) (body_message req1)"
            "validateQuery (JStr (body_message req1)) = Valid q1"
    and v2: "messageSchemaValid env2 (body_sessionId req2) (body_message req2)"
            "validateQuery (JStr (body_message req2)) = Valid q2"
    and same: "body_sessionId req2 = body_sessionId req1"
    and r1: "generateRAGResponse w1 (JStr q1) (body_sessionId req1) = Inr rag1"
    and r2: "generateRAGResponse w2 (JStr q2) (body_sessionId req1) = Inr rag2"
  shows "\<exists>body1 body2 c'.
     runSchedule (w1, env1, req1) (w2, env2, req2) [First, Second, First, Second]
       (Waiting, Waiting, Some c) = (Done (Status200 body1), Done (Status200 body2), Some c') \<and>
     history (Some c') (body_sessionId req1) =
       history (Some c) (body_sessionId req1) @
         [restUserMessage env2 req2 q2, restBotMessage env2 rag2]"
proof -
  from stepTurn_load [OF c(1) v1, of w1] obtain c1
    where s1: "stepTurn (w1, env1, req1) (Waiting, Some c) =
            (Pending q1 (history (Some c) (body_sessionId req1)), Some c1)"
      and c1: "up c1" "REDIS_TTL c1 = REDIS_TTL c" "kv c1 = kv c"
    by blast
  have t1: "0 < configuredTTL c1" using c(2) configuredTTL_cong [OF c1(2)] by simp
  have hist1: "history (Some c1) (body_sessionId req2) = history (Some c) (body_sessionId req1)"
    using c1(3) same by (simp add: history_def storedMessages_def)
  from stepTurn_load [OF c1(1) v2, of w2] obtain c2
    where s2: "stepTurn (w2, env2, req2) (Waiting, Some c1) =
            (Pending q2 (history (Some c1) (body_sessionId req2)), Some c2)"
      and c2: "up c2" "REDIS_TTL c2 = REDIS_TTL c1" "kv c2 = kv c1"
    by blast
  have t2: "0 < configuredTTL c2" using t1 configuredTTL_cong [OF c2(2)] by simp
  from stepTurn_finish [OF c2(1) t2 r1, of env1 "history (Some c) (body_sessionId req1)"] obtain body1 c3
    where s3: "stepTurn (w1, env1, req1) (Pending q1 (history (Some c) (body_sessionId req1)), Some c2) =
            (Done (Status200 body1), Some c3)"
      and c3: "up c3" "REDIS_TTL c3 = REDIS_TTL c2"
    by blast
  have t3: "0 < configuredTTL c3" using t2 configuredTTL_cong [OF c3(2)] by simp
  from r2 same have r2': "generateRAGResponse w2 (JStr q2) (body_sessionId req2) = Inr rag2" by simp
  from stepTurn_finish [OF c3(1) t3 r2', of env2 "history (Some c1) (body_sessionId req2)"] obtain body2 c4
    where s4: "stepTurn (w2, env2, req2) (Pending q2 (history (Some c1) (body_sessionId req2)), Some c3) =
            (Done (Status200 body2), Some c4)"
      and h4: "history (Some c4) (body_sessionId req2) =
            history (Some c1) (body_sessionId req2) @ [restUserMessage env2 req2 q2, restBotMessage env2 rag2]"
    by blast
  have "runSchedule (w1, env1, req1) (w2, env2, req2) [First, Second, First, Second]
       (Waiting, Waiting, Some c) = (Done (Status200 body1), Done (Status200 body2), Some c4)"
    by (simp add: s1 s2 s3 s4 del: stepTurn.simps)
  moreover have "history (Some c4) (body_sessionId req1) =
       history (Some c) (body_sessionId req1) @
         [restUserMessage env2 req2 q2, restBotMessage env2 rag2]"
    using h4 hist1 same by simp
  ultimately show ?thesis by blast
qed

lemma run_interleaved_first_saves_last:
  assumes c: "up c" "0 < configuredTTL c"
    and v1: "messageSchemaValid env1 (body_sessionId req1) (body_message req1)"
            "validateQuery (JStr (body_message req1)) = Valid q1"
    and v2: "messageSchemaValid env2 (body_sessionId req2) (body_message req2)"
            "validateQuery (JStr (body_message req2)) = Valid q2"
    and same: "body_sessionId req2 = body_sessionId req1"
    and r1: "generateRAGResponse w1 (JStr q1) (body_sessionId req1) = Inr rag1"
    and r2: "generateRAGResponse w2 (JStr q2) (body_sessionId req1) = Inr rag2"
  shows "\<exists>body1 body2 c'.
     runSchedule (w1, env1, req1) (w2, env2, req2) [First, Second, Second, First]
       (Waiting, Waiting, Some c) = (Done (Status200 body1), Done (Status200 body2), Some c') \<and>
     history (Some c') (body_sessionId req1) =
       history (Some c) (body_sessionId req1) @
         [restUserMessage env1 req1 q1, restBotMessage env1 rag1]"
proof -
  from stepTurn_load [OF c(1) v1, of w1] obtain c1
    where s1: "stepTurn (w1, env1, req1) (Waiting, Some c) =
            (Pending q1 (history (Some c) (body_sessionId req1)), Some c1)"
      and c1: "up c1" "REDIS_TTL c1 = REDIS_TTL c" "kv c1 = kv c"
    by blast
  have t1: "0 < configuredTTL c1" using c(2) configuredTTL_cong [OF c1(2)] by simp
  from stepTurn_load [OF c1(1) v2, of w2] obtain c2
    where s2: "stepTurn (w2, env2, req2) (Waiting, Some c1) =
            (Pending q2 (history (Some c1) (body_sessionId req2)), Some c2)"
      and c2: "up c2" "REDIS_TTL c2 = REDIS_TTL c1" "kv c2 = kv c1"
    by blast
  have t2: "0 < configuredTTL c2" using t1 configuredTTL_cong [OF c2(2)] by simp
  from r2 same have r2': "generateRAGResponse w2 (JStr q2) (body_sessionId req2) = Inr rag2" by simp
  from stepTurn_finish [OF c2(1) t2 r2', of env2 "history (Some c1) (body_sessionId req2)"] obtain body2 c3
    where s3: "stepTurn (w2, env2, req2) (Pending q2 (history (Some c1) (body_sessionId req2)), Some c2) =
            (Done (Status200 body2), Some c3)"
      and c3: "up c3" "REDIS_TTL c3 = REDIS_TTL c2"
    by blast
  have t3: "0 < configuredTTL c3" using t2 configuredTTL_cong [OF c3(2)] by simp
  from stepTurn_finish [OF c3(1) t3 r1, of env1 "history (Some c) (body_sessionId req1)"] obtain body1 c4
    where s4: "stepTurn (w1, env1, req1) (Pending q1 (history (Some c) (body_sessionId req1)), Some c3) =
            (Done (Status200 body1), Some c4)"
      and h4: "history (Some c4) (body_sessionId req1) =
            history (Some c) (body_sessionId req1) @ [restUserMessage env1 req1 q1, restBotMessage env1 rag1]"
    by blast
  have "runSchedule (w1, env1, req1) (w2, env2, req2) [First, Second, Second, First]
       (Waiting, Waiting, Some c) = (Done (Status200 body1), Done (Status200 body2), Some c4)"
    by (simp add: s1 s2 s3 s4 del: stepTurn.simps)
  with h4 show ?thesis by blast
qed

section \<open>The example store and turns, evaluated\<close>

lemma emptyRedis_ready: "up emptyRedis" "0 < configuredTTL emptyRedis" "configuredTTL emptyRedis = 3600"
  by (simp_all add: emptyRedis_def configuredTTL_def)

lemma emptyRedis_history: "history (Some emptyRedis) sid = []"
  by (simp add: history_def storedMessages_def emptyRedis_def)

lemma restRequest_valid:
  "messageSchemaValid firstEnv (body_sessionId restRequest) (body_message restRequest)"
  "validateQuery (JStr (body_message restRequest)) = Valid techQuery"
  "body_sessionId restRequest = exampleSession"
proof -
  have "length techQuery = 28" by (simp add: techQuery_def)
  then show "messageSchemaValid firstEnv (body_sessionId restRequest) (body_message restRequest)"
    by (simp add: messageSchemaValid_def firstEnv_def restRequest_def looksLikeUuid_def exampleSession_def)
  show "validateQuery (JStr (body_message restRequest)) = Valid techQuery"
    by (simp add: restRequest_def validate_tech del: validateQuery.simps)
  show "body_sessionId restRequest = exampleSession" by (simp add: restRequest_def)
qed

lemma secondRequest_valid:
  "messageSchemaValid secondEnv (body_sessionId secondRequest) (body_message secondRequest)"
  "validateQuery (JStr (body_message secondRequest)) = Valid ''Any news on chip makers?''"
  "body_sessionId secondRequest = body_sessionId restRequest"
  by (simp_all add: messageSchemaValid_def secondEnv_def firstEnv_def secondRequest_def restRequest_def
      looksLikeUuid_def exampleSession_def trim_def isWhiteSpace_def Let_def)

lemma socketRequest_valid:
  "messageSchemaValid firstEnv (data_sessionId socketRequest) (data_message socketRequest)"
  "validateQuery (JStr (data_message socketRequest)) = Valid techQuery"
  "data_sessionId socketRequest = body_sessionId restRequest"
  "data_message socketRequest = body_message restRequest"
proof -
  have "length techQuery = 28" by (simp add: techQuery_def)
  then show "messageSchemaValid firstEnv (data_sessionId socketRequest) (data_message socketRequest)"
    by (simp add: messageSchemaValid_def firstEnv_def socketRequest_def looksLikeUuid_def exampleSession_def)
  show "validateQuery (JStr (data_message socketRequest)) = Valid techQuery"
    by (simp add: socketRequest_def validate_tech del: validateQuery.simps)
  show "data_sessionId socketRequest = body_sessionId restRequest"
    "data_message socketRequest = body_message restRequest"
    by (simp_all add: socketRequest_def restRequest_def)
qed

lemma expiringRedis_ready:
  "up expiringRedis" "0 < configuredTTL expiringRedis" "configuredTTL expiringRedis = 3600"
  "REDIS_TTL expiringRedis = None"
  "secondsLeft (Some expiringRedis) exampleSession = Some 5"
  by (simp_all add: expiringRedis_def emptyRedis_def configuredTTL_def secondsLeft_def
      sessionKey_def exampleSession_def)

lemma shortLivedRedis_ready:
  "up shortLivedRedis" "0 < configuredTTL shortLivedRedis" "configuredTTL shortLivedRedis = 120"
  "REDIS_TTL shortLivedRedis = Some 120"
  "secondsLeft (Some shortLivedRedis) exampleSession = Some 5"
  by (simp_all add: shortLivedRedis_def expiringRedis_def emptyRedis_def configuredTTL_def
      secondsLeft_def sessionKey_def exampleSession_def)

section \<open>Concurrent turns on one session\<close>

text \<open>
  C3. The claim: after two concurrently executed \<open>sendMessage\<close> turns on one session,
  the history holds the user and bot messages of both. \<open>sendMessage\<close> reads the whole
  list with \<open>getSession\<close>, appends to its own copy and writes the whole list back with
  \<open>saveSession\<close>; nothing in the controller or the store module orders two turns of
  one session. When both turns load before either saves, the second save overwrites
  the first: on an empty session the history ends up with the second turn's two
  messages only.
\<close>

theorem concurrent_turns_lose_update:
  "map m_id (history (snd (snd (runSchedule (exampleWorld, firstEnv, restRequest)
        (exampleWorld, secondEnv, secondRequest) [First, Second, First, Second]
        (Waiting, Waiting, Some emptyRedis)))) exampleSession) = [''u-2'', ''b-2''] \<and>
   isDone (fst (runSchedule (exampleWorld, firstEnv, restRequest)
        (exampleWorld, secondEnv, secondRequest) [First, Second, First, Second]
        (Waiting, Waiting, Some emptyRedis))) \<and>
   isDone (fst (snd (runSchedule (exampleWorld, firstEnv, restRequest)
        (exampleWorld, secondEnv, secondRequest) [First, Second, First, Second]
        (Waiting, Waiting, Some emptyRedis))))"
proof -
  obtain rag1 where r1: "generateRAGResponse exampleWorld (JStr techQuery) (body_sessionId restRequest) = Inr rag1"
    using generateRAGResponse_returns by blast
  obtain rag2 where r2: "generateRAGResponse exampleWorld (JStr ''Any news on chip makers?'')
      (body_sessionId restRequest) = Inr rag2"
    using generateRAGResponse_returns by blast
  from run_interleaved [OF emptyRedis_ready(1,2) restRequest_valid(1,2) secondRequest_valid r1 r2]
  obtain body1 body2 c' where
    run: "runSchedule (exampleWorld, firstEnv, restRequest) (exampleWorld, secondEnv, secondRequest)
       [First, Second, First, Second] (Waiting, Waiting, Some emptyRedis) =
       (Done (Status200 body1), Done (Status200 body2), Some c')"
    and h: "history (Some c') (body_sessionId restRequest) =
       history (Some emptyRedis) (body_sessionId restRequest) @
         [restUserMessage secondEnv secondRequest ''Any news on chip makers?'',
          restBotMessage secondEnv rag2]"
    by blast
  from h have "map m_id (history (Some c') exampleSession) = [''u-2'', ''b-2'']"
    by (simp add: restRequest_valid(3) emptyRedis_history restUserMessage_def restBotMessage_def
        secondEnv_def firstEnv_def)
  with run show ?thesis by simp
qed

text \<open>
  C3, as amended: two \<open>sendMessage\<close> turns on one session that run one after the other
  leave the history with the earlier messages followed by the user and bot messages
  of both turns, in the order the turns ran; when both turns load before either
  saves, the history after both have completed holds the earlier messages followed by
  the messages of the turn that saved last, and those of the other turn are lost.
\<close>

theorem turns_serial_and_interleaved:
  assumes "up client" and "0 < configuredTTL client"
    and "messageSchemaValid env1 (body_sessionId req1) (body_message req1)"
    and "validateQuery (JStr (body_message req1)) = Valid q1"
    and "messageSchemaValid env2 (body_sessionId req2) (body_message req2)"
    and "validateQuery (JStr (body_message req2)) = Valid q2"
    and "body_sessionId req2 = body_sessionId req1"
  shows "\<exists>rag1 rag2.
     generateRAGResponse w1 (JStr q1) (body_sessionId req1) = Inr rag1 \<and>
     generateRAGResponse w2 (JStr q2) (body_sessionId req1) = Inr rag2 \<and>
     history (snd (snd (runSchedule (w1, env1, req1) (w2, env2, req2) [First, First, Second, Second]
         (Waiting, Waiting, Some client)))) (body_sessionId req1) =
       history (Some client) (body_sessionId req1) @
         [restUserMessage env1 req1 q1, restBotMessage env1 rag1,
          restUserMessage env2 req2 q2, restBotMessage env2 rag2] \<and>
     history (snd (snd (runSchedule (w1, env1, req1) (w2, env2, req2) [First, Second, First, Second]
         (Waiting, Waiting, Some client)))) (body_sessionId req1) =
       history (Some client) (body_sessionId req1) @
         [restUserMessage env2 req2 q2, restBotMessage env2 rag2] \<and>
     history (snd (snd (runSchedule (w1, env1, req1) (w2, env2, req2) [First, Second, Second, First]
         (Waiting, Waiting, Some client)))) (body_sessionId req1) =
       history (Some client) (body_sessionId req1) @
         [restUserMessage env1 req1 q1, restBotMessage env1 rag1]"
proof -
  obtain rag1 where r1: "generateRAGResponse w1 (JStr q1) (body_sessionId req1) = Inr rag1"
    using generateRAGResponse_returns by blast
  obtain rag2 where r2: "generateRAGResponse w2 (JStr q2) (body_sessionId req1) = Inr rag2"
    using generateRAGResponse_returns by blast
  from run_serial [OF assms r1 r2]
  have a: "history (snd (snd (runSchedule (w1, env1, req1) (w2, env2, req2) [First, First, Second, Second]
         (Waiting, Waiting, Some client)))) (body_sessionId req1) =
       history (Some client) (body_sessionId req1) @
         [restUserMessage env1 req1 q1, restBotMessage env1 rag1,
          restUserMessage env2 req2 q2, restBotMessage env2 rag2]"
    by auto
  from run_interleaved [OF assms r1 r2]
  have b: "history (snd (snd (runSchedule (w1, env1, req1) (w2, env2, req2) [First, Second, First, Second]
         (Waiting, Waiting, Some client)))) (body_sessionId req1) =
       history (Some client) (body_sessionId req1) @
         [restUserMessage env2 req2 q2, restBotMessage env2 rag2]"
    by auto
  from run_interleaved_first_saves_last [OF assms r1 r2]
  have c: "history (snd (snd (runSchedule (w1, env1, req1) (w2, env2, req2) [First, Second, Second, First]
         (Waiting, Waiting, Some client)))) (body_sessionId req1) =
       history (Some client) (body_sessionId req1) @
         [restUserMessage env1 req1 q1, restBotMessage env1 rag1]"
    by auto
  from r1 r2 a b c show ?thesis by blast
qed

theorem turns_serial_and_interleaved_witness:
  "up emptyRedis \<and> 0 < configuredTTL emptyRedis \<and>
   messageSchemaValid firstEnv (body_sessionId restRequest) (body_message restRequest) \<and>
   validateQuery (JStr (body_message restRequest)) = Valid techQuery \<and>
   messageSchemaValid secondEnv (body_sessionId secondRequest) (body_message secondRequest) \<and>
   validateQuery (JStr (body_message secondRequest)) = Valid ''Any news on chip makers?'' \<and>
   body_sessionId secondRequest = body_sessionId restRequest \<and>
   map m_id (history (snd (snd (runSchedule (exampleWorld, firstEnv, restRequest)
       (exampleWorld, secondEnv, secondRequest) [First, First, Second, Second]
       (Waiting, Waiting, Some emptyRedis)))) (body_sessionId restRequest)) =
     [''u-1'', ''b-1'', ''u-2'', ''b-2''] \<and>
   map m_id (history (snd (snd (runSchedule (exampleWorld, firstEnv, restRequest)
       (exampleWorld, secondEnv, secondRequest) [First, Second, Second, First]
       (Waiting, Waiting, Some emptyRedis)))) (body_sessionId restRequest)) =
     [''u-1'', ''b-1'']"
proof -
  from turns_serial_and_interleaved [OF emptyRedis_ready(1,2) restRequest_valid(1,2) secondRequest_valid,
      of exampleWorld exampleWorld]
  obtain rag1 rag2 where
    a: "history (snd (snd (runSchedule (exampleWorld, firstEnv, restRequest)
         (exampleWorld, secondEnv, secondRequest) [First, First, Second, Second]
         (Waiting, Waiting, Some emptyRedis)))) (body_sessionId restRequest) =
       history (Some emptyRedis) (body_sessionId restRequest) @
         [restUserMessage firstEnv restRequest techQuery, restBotMessage firstEnv rag1,
          restUserMessage secondEnv secondRequest ''Any news on chip makers?'',
          restBotMessage secondEnv rag2]"
    and c: "history (snd (snd (runSchedule (exampleWorld, firstEnv, restRequest)
         (exampleWorld, secondEnv, secondRequest) [First, Second, Second, First]
         (Waiting, Waiting, Some emptyRedis)))) (body_sessionId restRequest) =
       history (Some emptyRedis) (body_sessionId restRequest) @
         [restUserMessage firstEnv restRequest techQuery, restBotMessage firstEnv rag1]"
    by blast
  have ids: "map m_id (history (Some emptyRedis) (body_sessionId restRequest) @
         [restUserMessage firstEnv restRequest techQuery, restBotMessage firstEnv rag1,
          restUserMessage secondEnv secondRequest ''Any news on chip makers?'',
          restBotMessage secondEnv rag2]) = [''u-1'', ''b-1'', ''u-2'', ''b-2'']"
    "map m_id (history (Some emptyRedis) (body_sessionId restRequest) @
         [restUserMessage firstEnv restRequest techQuery, restBotMessage firstEnv rag1]) =
       [''u-1'', ''b-1'']"
    by (simp_all add: emptyRedis_history restUserMessage_def restBotMessage_def secondEnv_def firstEnv_def)
  from a c ids emptyRedis_ready(1,2) restRequest_valid(1,2) secondRequest_valid
  show ?thesis by (simp del: validateQuery.simps)
qed

section \<open>The two channels of the gateway\<close>

lemma savedLists_simps [simp]:
  "savedLists [] = []"
  "savedLists (GET k # cs) = savedLists cs"
  "savedLists (SETEX k t v # cs) = sd_messages v # savedLists cs"
  by (simp_all add: savedLists_def List.map_filter_simps)


lemma sendMessage_ok:
  assumes "up c" and "0 < configuredTTL c"
    and "messageSchemaValid env (body_sessionId req) (body_message req)"
    and "validateQuery (JStr (body_message req)) = Valid vq"
    and "generateRAGResponse w (JStr vq) (body_sessionId req) = Inr rag"
  shows "\<exists>body c'. sendMessage w env (Some c) req = (Status200 body, Some c') \<and>
     up c' \<and> REDIS_TTL c' = REDIS_TTL c \<and>
     kv c' = (kv c)(sessionKey (body_sessionId req) \<mapsto>
        (\<lparr>sd_sessionId = body_sessionId req,
          sd_messages = history (Some c) (body_sessionId req) @
             [restUserMessage env req vq, restBotMessage env rag],
          sd_lastUpdated = lastSaveTimestamp env,
          sd_messageCount = length (history (Some c) (body_sessionId req)) + 2\<rparr>,
         nat (configuredTTL c))) \<and>
     received c' = received c @
       [GET (sessionKey (body_sessionId req)),
        SETEX (sessionKey (body_sessionId req)) (configuredTTL c)
         \<lparr>sd_sessionId = body_sessionId req,
          sd_messages = history (Some c) (body_sessionId req) @
             [restUserMessage env req vq, restBotMessage env rag],
          sd_lastUpdated = lastSaveTimestamp env,
          sd_messageCount = length (history (Some c) (body_sessionId req)) + 2\<rparr>]"
proof -
  let ?c1 = "c\<lparr>received := received c @ [GET (sessionKey (body_sessionId req))]\<rparr>"
  have l: "sendMessage_load env (Some c) req =
      (Loaded vq (history (Some c) (body_sessionId req)), Some ?c1)"
    by (rule sendMessage_load_ok [OF assms(1,3,4)])
  have "up ?c1" and "0 < configuredTTL ?c1" using assms(1,2) by simp_all
  from sendMessage_finish_ok [OF this assms(5), of env "history (Some c) (body_sessionId req)"] l
  show ?thesis by (auto simp: sendMessage_def)
qed




section \<open>Every save renews the session lifetime\<close>

lemma getSession_client:
  "getSession rc sid = (msgs, Some c1) \<Longrightarrow> \<exists>c. rc = Some c \<and> REDIS_TTL c1 = REDIS_TTL c"
  by (cases rc) (auto simp: getSession_def redis_get_def split: if_splits option.splits)

lemma saveSession_expiry:
  assumes "saveSession rc sid msgs now = (Inr u, rc')"
  shows "\<exists>c. rc = Some c \<and> up c \<and> 0 < configuredTTL c \<and>
     secondsLeft rc' sid = Some (nat (configuredTTL c)) \<and> storedMessages rc' sid = Some msgs \<and>
     (\<exists>c'. rc' = Some c' \<and> up c' \<and> REDIS_TTL c' = REDIS_TTL c)"
proof -
  from saveSession_Inr [OF assms] obtain c where c: "rc = Some c" "up c" "0 < configuredTTL c"
    by blast
  from saveSession_up [OF c(2,3), of sid msgs now] assms c(1)
  show ?thesis using c by (auto simp: secondsLeft_def storedMessages_def)
qed

lemma sendMessage_200:
  assumes "sendMessage w env rc req = (Status200 body, rc')"
  shows "\<exists>msgs0 rc1 msgs. getSession rc (body_sessionId req) = (msgs0, rc1) \<and>
     saveSession rc1 (body_sessionId req) msgs (lastSaveTimestamp env) = (Inr (), rc')"
proof -
  obtain msgs0 rc1 where g: "getSession rc (body_sessionId req) = (msgs0, rc1)"
    by (cases "getSession rc (body_sessionId req)")
  from assms g show ?thesis
    by (auto simp: sendMessage_def sendMessage_load_def sendMessage_finish_def Let_def
        simp del: validateQuery.simps generateRAGResponse.simps
        split: if_splits validation.splits sum.splits prod.splits)
qed

lemma send_message_typing:
  assumes "send_message w env rc sreq = (events, rc')"
    and "ToRoom (data_sessionId sreq) (BotTyping True) \<in> set events"
  shows "\<exists>msgs0 rc1 msgs rc2. getSession rc (data_sessionId sreq) = (msgs0, rc1) \<and>
     saveSession rc1 (data_sessionId sreq) msgs (firstSaveTimestamp env) = (Inr (), rc2) \<and>
     (rc' = rc2 \<or> (\<exists>msgs' e. saveSession rc2 (data_sessionId sreq) msgs' (lastSaveTimestamp env) = (e, rc')))"
proof -
  obtain msgs0 rc1 where g: "getSession rc (data_sessionId sreq) = (msgs0, rc1)"
    by (cases "getSession rc (data_sessionId sreq)")
  from assms g show ?thesis
    by (auto simp: send_message_def Let_def
        simp del: validateQuery.simps generateRAGResponse.simps
        split: if_splits validation.splits sum.splits prod.splits)
qed

text \<open>
  C10. Every call of \<open>saveSession\<close> that completes sets the expiry of the session key to
  the full configured lifetime, \<open>parseInt(process.env.REDIS_TTL) || 3600\<close> seconds (the
  number of \<open>REDIS_TTL\<close> when it parses to one that is not 0, and 3600 otherwise),
  whatever time the key had left, and leaves it where \<open>extendSessionTTL\<close> with its
  default would put it. So a turn answered on the REST channel, and a turn on the
  socket channel that got as far as the typing indicator, leave the session with the
  full lifetime without any call of \<open>extendSessionTTL\<close>.
\<close>

theorem saveSession_resets_expiry:
  "(saveSession rc sessionId messages now = (Inr (), rc') \<longrightarrow>
      (\<exists>client. rc = Some client \<and> 0 < configuredTTL client \<and>
         secondsLeft rc' sessionId = Some (nat (configuredTTL client)) \<and>
         storedMessages rc' sessionId = Some messages \<and>
         fst (extendSessionTTL rc' sessionId None) \<and>
         secondsLeft (snd (extendSessionTTL rc' sessionId None)) sessionId =
           secondsLeft rc' sessionId)) \<and>
   (REDIS_TTL client = None \<longrightarrow> configuredTTL client = 3600) \<and>
   (sendMessage w env rc req = (Status200 body, rest) \<longrightarrow>
      (\<exists>client. rc = Some client \<and>
         secondsLeft rest (body_sessionId req) = Some (nat (configuredTTL client)))) \<and>
   (send_message w env rc sreq = (events, sock) \<and>
    ToRoom (data_sessionId sreq) (BotTyping True) \<in> set events \<longrightarrow>
      (\<exists>client. rc = Some client \<and>
         secondsLeft sock (data_sessionId sreq) = Some (nat (configuredTTL client)))) \<and>
   (REDIS_TTL client = Some n \<and> n \<noteq> 0 \<longrightarrow> configuredTTL client = n) \<and>
   (REDIS_TTL client = Some 0 \<longrightarrow> configuredTTL client = 3600) \<and>
   (rc = Some store \<and> REDIS_TTL store = Some seconds \<and> seconds \<noteq> 0 \<longrightarrow>
      (saveSession rc sessionId messages now = (Inr (), rc') \<longrightarrow>
         0 < seconds \<and> secondsLeft rc' sessionId = Some (nat seconds) \<and>
         commandsSince rc rc' =
           [SETEX (sessionKey sessionId) seconds
              \<lparr>sd_sessionId = sessionId, sd_messages = messages, sd_lastUpdated = now,
               sd_messageCount = length messages\<rparr>]) \<and>
      (sendMessage w env rc req = (Status200 body, rest) \<longrightarrow>
         secondsLeft rest (body_sessionId req) = Some (nat seconds)) \<and>
      (send_message w env rc sreq = (events, sock) \<and>
       ToRoom (data_sessionId sreq) (BotTyping True) \<in> set events \<longrightarrow>
         secondsLeft sock (data_sessionId sreq) = Some (nat seconds))) \<and>
   (rc = Some store \<and> (REDIS_TTL store = None \<or> REDIS_TTL store = Some 0) \<longrightarrow>
      (saveSession rc sessionId messages now = (Inr (), rc') \<longrightarrow>
         secondsLeft rc' sessionId = Some 3600 \<and>
         commandsSince rc rc' =
           [SETEX (sessionKey sessionId) 3600
              \<lparr>sd_sessionId = sessionId, sd_messages = messages, sd_lastUpdated = now,
               sd_messageCount = length messages\<rparr>]) \<and>
      (sendMessage w env rc req = (Status200 body, rest) \<longrightarrow>
         secondsLeft rest (body_sessionId req) = Some 3600) \<and>
      (send_message w env rc sreq = (events, sock) \<and>
       ToRoom (data_sessionId sreq) (BotTyping True) \<in> set events \<longrightarrow>
         secondsLeft sock (data_sessionId sreq) = Some 3600))"
proof -
  have a: "saveSession rc sessionId messages now = (Inr (), rc') \<longrightarrow>
      (\<exists>client. rc = Some client \<and> 0 < configuredTTL client \<and>
         secondsLeft rc' sessionId = Some (nat (configuredTTL client)) \<and>
         storedMessages rc' sessionId = Some messages \<and>
         fst (extendSessionTTL rc' sessionId None) \<and>
         secondsLeft (snd (extendSessionTTL rc' sessionId None)) sessionId =
           secondsLeft rc' sessionId)"
  proof
    assume s: "saveSession rc sessionId messages now = (Inr (), rc')"
    from saveSession_Inr [OF s] obtain c where c: "rc = Some c" "up c" "0 < configuredTTL c"
      by blast
    from saveSession_up [OF c(2,3), of sessionId messages now] s c(1)
    have rc': "rc' = Some (c\<lparr>kv := (kv c)(sessionKey sessionId \<mapsto>
                  (\<lparr>sd_sessionId = sessionId, sd_messages = messages, sd_lastUpdated = now,
                    sd_messageCount = length messages\<rparr>, nat (configuredTTL c))),
              received := received c @
                [SETEX (sessionKey sessionId) (configuredTTL c)
                   \<lparr>sd_sessionId = sessionId, sd_messages = messages, sd_lastUpdated = now,
                    sd_messageCount = length messages\<rparr>]\<rparr>)"
      by simp
    show "\<exists>client. rc = Some client \<and> 0 < configuredTTL client \<and>
         secondsLeft rc' sessionId = Some (nat (configuredTTL client)) \<and>
         storedMessages rc' sessionId = Some messages \<and>
         fst (extendSessionTTL rc' sessionId None) \<and>
         secondsLeft (snd (extendSessionTTL rc' sessionId None)) sessionId =
           secondsLeft rc' sessionId"
      using c
      by (intro exI [of _ c])
        (simp add: rc' secondsLeft_def storedMessages_def extendSessionTTL_def redis_expire_def Let_def)
  qed
  have b: "REDIS_TTL client = None \<longrightarrow> configuredTTL client = 3600"
    by (simp add: configuredTTL_def)
  have c: "sendMessage w env rc req = (Status200 body, rest) \<longrightarrow>
      (\<exists>client. rc = Some client \<and>
         secondsLeft rest (body_sessionId req) = Some (nat (configuredTTL client)))"
  proof
    assume "sendMessage w env rc req = (Status200 body, rest)"
    from sendMessage_200 [OF this] obtain msgs0 rc1 msgs
      where g: "getSession rc (body_sessionId req) = (msgs0, rc1)"
        and s: "saveSession rc1 (body_sessionId req) msgs (lastSaveTimestamp env) = (Inr (), rest)"
      by blast
    from saveSession_expiry [OF s] obtain c1 where c1: "rc1 = Some c1"
      "secondsLeft rest (body_sessionId req) = Some (nat (configuredTTL c1))"
      by blast
    from getSession_client [OF g [unfolded c1(1)]] obtain c0
      where "rc = Some c0" "REDIS_TTL c1 = REDIS_TTL c0" by blast
    with c1(2) configuredTTL_cong [of c1 c0]
    show "\<exists>client. rc = Some client \<and>
         secondsLeft rest (body_sessionId req) = Some (nat (configuredTTL client))"
      by simp
  qed
  have d: "send_message w env rc sreq = (events, sock) \<and>
    ToRoom (data_sessionId sreq) (BotTyping True) \<in> set events \<longrightarrow>
      (\<exists>client. rc = Some client \<and>
         secondsLeft sock (data_sessionId sreq) = Some (nat (configuredTTL client)))"
  proof
    assume h: "send_message w env rc sreq = (events, sock) \<and>
      ToRoom (data_sessionId sreq) (BotTyping True) \<in> set events"
    from send_message_typing [of w env rc sreq events sock] h obtain msgs0 rc1 msgs rc2
      where g: "getSession rc (data_sessionId sreq) = (msgs0, rc1)"
        and s1: "saveSession rc1 (data_sessionId sreq) msgs (firstSaveTimestamp env) = (Inr (), rc2)"
        and alt: "sock = rc2 \<or> (\<exists>msgs' e.
            saveSession rc2 (data_sessionId sreq) msgs' (lastSaveTimestamp env) = (e, sock))"
      by blast
    from saveSession_expiry [OF s1] obtain c1 c2 where c1: "rc1 = Some c1" "0 < configuredTTL c1"
      "secondsLeft rc2 (data_sessionId sreq) = Some (nat (configuredTTL c1))"
      and c2: "rc2 = Some c2" "up c2" "REDIS_TTL c2 = REDIS_TTL c1"
      by blast
    from getSession_client [OF g [unfolded c1(1)]] obtain c0
      where c0: "rc = Some c0" "REDIS_TTL c1 = REDIS_TTL c0" by blast
    have ttl1: "configuredTTL c1 = configuredTTL c0" by (rule configuredTTL_cong [OF c0(2)])
    have ttl2: "configuredTTL c2 = configuredTTL c1" by (rule configuredTTL_cong [OF c2(3)])
    from alt have "secondsLeft sock (data_sessionId sreq) = Some (nat (configuredTTL c1))"
    proof
      assume "sock = rc2"
      with c1(3) show ?thesis by simp
    next
      assume "\<exists>msgs' e. saveSession rc2 (data_sessionId sreq) msgs' (lastSaveTimestamp env) = (e, sock)"
      then obtain msgs' e
        where s2: "saveSession rc2 (data_sessionId sreq) msgs' (lastSaveTimestamp env) = (e, sock)"
        by blast
      have pos: "0 < configuredTTL c2" using c1(2) ttl2 by simp
      from saveSession_up [OF c2(2) pos, of "data_sessionId sreq" msgs' "lastSaveTimestamp env"] s2 c2(1)
      have "saveSession rc2 (data_sessionId sreq) msgs' (lastSaveTimestamp env) = (Inr (), sock)"
        by simp
      from saveSession_expiry [OF this] c2(1) ttl2 show ?thesis by auto
    qed
    with c0(1) ttl1
    show "\<exists>client. rc = Some client \<and>
         secondsLeft sock (data_sessionId sreq) = Some (nat (configuredTTL client))"
      by simp
  qed
  have e: "REDIS_TTL client = Some n \<and> n \<noteq> 0 \<longrightarrow> configuredTTL client = n"
    by (simp add: configuredTTL_def)
  have f: "REDIS_TTL client = Some 0 \<longrightarrow> configuredTTL client = 3600"
    by (simp add: configuredTTL_def)
  have cmd: "saveSession rc sessionId messages now = (Inr (), rc') \<longrightarrow>
      (\<exists>client. rc = Some client \<and> 0 < configuredTTL client \<and>
         commandsSince rc rc' =
           [SETEX (sessionKey sessionId) (configuredTTL client)
              \<lparr>sd_sessionId = sessionId, sd_messages = messages, sd_lastUpdated = now,
               sd_messageCount = length messages\<rparr>])"
  proof
    assume s: "saveSession rc sessionId messages now = (Inr (), rc')"
    from saveSession_Inr [OF s] obtain c where c: "rc = Some c" "up c" "0 < configuredTTL c"
      by blast
    from saveSession_up [OF c(2,3), of sessionId messages now] s c(1)
    have "commandsSince rc rc' =
           [SETEX (sessionKey sessionId) (configuredTTL c)
              \<lparr>sd_sessionId = sessionId, sd_messages = messages, sd_lastUpdated = now,
               sd_messageCount = length messages\<rparr>]"
      by (auto simp: commandsSince_def commands_def)
    with c show "\<exists>client. rc = Some client \<and> 0 < configuredTTL client \<and>
         commandsSince rc rc' =
           [SETEX (sessionKey sessionId) (configuredTTL client)
              \<lparr>sd_sessionId = sessionId, sd_messages = messages, sd_lastUpdated = now,
               sd_messageCount = length messages\<rparr>]"
      by blast
  qed
  have g: "rc = Some store \<and> REDIS_TTL store = Some seconds \<and> seconds \<noteq> 0 \<longrightarrow>
      (saveSession rc sessionId messages now = (Inr (), rc') \<longrightarrow>
         0 < seconds \<and> secondsLeft rc' sessionId = Some (nat seconds) \<and>
         commandsSince rc rc' =
           [SETEX (sessionKey sessionId) seconds
              \<lparr>sd_sessionId = sessionId, sd_messages = messages, sd_lastUpdated = now,
               sd_messageCount = length messages\<rparr>]) \<and>
      (sendMessage w env rc req = (Status200 body, rest) \<longrightarrow>
         secondsLeft rest (body_sessionId req) = Some (nat seconds)) \<and>
      (send_message w env rc sreq = (events, sock) \<and>
       ToRoom (data_sessionId sreq) (BotTyping True) \<in> set events \<longrightarrow>
         secondsLeft sock (data_sessionId sreq) = Some (nat seconds))"
  proof
    assume "rc = Some store \<and> REDIS_TTL store = Some seconds \<and> seconds \<noteq> 0"
    then have rc: "rc = Some store" and ttl: "configuredTTL store = seconds"
      by (simp_all add: configuredTTL_def)
    from a cmd c d rc ttl
    show "(saveSession rc sessionId messages now = (Inr (), rc') \<longrightarrow>
         0 < seconds \<and> secondsLeft rc' sessionId = Some (nat seconds) \<and>
         commandsSince rc rc' =
           [SETEX (sessionKey sessionId) seconds
              \<lparr>sd_sessionId = sessionId, sd_messages = messages, sd_lastUpdated = now,
               sd_messageCount = length messages\<rparr>]) \<and>
      (sendMessage w env rc req = (Status200 body, rest) \<longrightarrow>
         secondsLeft rest (body_sessionId req) = Some (nat seconds)) \<and>
      (send_message w env rc sreq = (events, sock) \<and>
       ToRoom (data_sessionId sreq) (BotTyping True) \<in> set events \<longrightarrow>
         secondsLeft sock (data_sessionId sreq) = Some (nat seconds))"
      by auto
  qed
  have h: "rc = Some store \<and> (REDIS_TTL store = None \<or> REDIS_TTL store = Some 0) \<longrightarrow>
      (saveSession rc sessionId messages now = (Inr (), rc') \<longrightarrow>
         secondsLeft rc' sessionId = Some 3600 \<and>
         commandsSince rc rc' =
           [SETEX (sessionKey sessionId) 3600
              \<lparr>sd_sessionId = sessionId, sd_messages = messages, sd_lastUpdated = now,
               sd_messageCount = length messages\<rparr>]) \<and>
      (sendMessage w env rc req = (Status200 body, rest) \<longrightarrow>
         secondsLeft rest (body_sessionId req) = Some 3600) \<and>
      (send_message w env rc sreq = (events, sock) \<and>
       ToRoom (data_sessionId sreq) (BotTyping True) \<in> set events \<longrightarrow>
         secondsLeft sock (data_sessionId sreq) = Some 3600)"
  proof
    assume "rc = Some store \<and> (REDIS_TTL store = None \<or> REDIS_TTL store = Some 0)"
    then have rc: "rc = Some store" and ttl: "configuredTTL store = 3600"
      by (auto simp: configuredTTL_def)
    from a cmd c d rc ttl
    show "(saveSession rc sessionId messages now = (Inr (), rc') \<longrightarrow>
         secondsLeft rc' sessionId = Some 3600 \<and>
         commandsSince rc rc' =
           [SETEX (sessionKey sessionId) 3600
              \<lparr>sd_sessionId = sessionId, sd_messages = messages, sd_lastUpdated = now,
               sd_messageCount = length messages\<rparr>]) \<and>
      (sendMessage w env rc req = (Status200 body, rest) \<longrightarrow>
         secondsLeft rest (body_sessionId req) = Some 3600) \<and>
      (send_message w env rc sreq = (events, sock) \<and>
       ToRoom (data_sessionId sreq) (BotTyping True) \<in> set events \<longrightarrow>
         secondsLeft sock (data_sessionId sreq) = Some 3600)"
      by auto
  qed
  from a b c d e f g h show ?thesis by blast
qed

theorem saveSession_resets_expiry_witness:
  "secondsLeft (Some expiringRedis) exampleSession = Some 5 \<and>
   REDIS_TTL expiringRedis = None \<and>
   fst (saveSession (Some expiringRedis) exampleSession [] ''2025-09-18T08:00:00.000Z'') = Inr () \<and>
   secondsLeft (snd (saveSession (Some expiringRedis) exampleSession [] ''2025-09-18T08:00:00.000Z''))
     exampleSession = Some 3600 \<and>
   secondsLeft (snd (sendMessage exampleWorld firstEnv (Some expiringRedis) restRequest))
     exampleSession = Some 3600 \<and>
   secondsLeft (snd (send_message exampleWorld firstEnv (Some expiringRedis) socketRequest))
     exampleSession = Some 3600 \<and>
   secondsLeft (Some shortLivedRedis) exampleSession = Some 5 \<and>
   REDIS_TTL shortLivedRedis = Some 120 \<and>
   fst (saveSession (Some shortLivedRedis) exampleSession [] ''2025-09-18T08:00:00.000Z'') = Inr () \<and>
   secondsLeft (snd (saveSession (Some shortLivedRedis) exampleSession [] ''2025-09-18T08:00:00.000Z''))
     exampleSession = Some 120 \<and>
   commandsSince (Some shortLivedRedis)
     (snd (saveSession (Some shortLivedRedis) exampleSession [] ''2025-09-18T08:00:00.000Z'')) =
     [SETEX (sessionKey exampleSession) 120
        \<lparr>sd_sessionId = exampleSession, sd_messages = [],
         sd_lastUpdated = ''2025-09-18T08:00:00.000Z'', sd_messageCount = 0\<rparr>] \<and>
   secondsLeft (snd (sendMessage exampleWorld firstEnv (Some shortLivedRedis) restRequest))
     exampleSession = Some 120 \<and>
   secondsLeft (snd (send_message exampleWorld firstEnv (Some shortLivedRedis) socketRequest))
     exampleSession = Some 120"
proof -
  obtain rag where r: "generateRAGResponse exampleWorld (JStr techQuery) (body_sessionId restRequest) = Inr rag"
    using generateRAGResponse_returns by blast
  have r': "generateRAGResponse exampleWorld (JStr techQuery) (data_sessionId socketRequest) = Inr rag"
    using r socketRequest_valid(3) by simp
  obtain rc' where s: "saveSession (Some expiringRedis) exampleSession [] ''2025-09-18T08:00:00.000Z'' =
      (Inr (), rc')"
    using saveSession_up [OF expiringRedis_ready(1,2)] by blast
  from sendMessage_ok [OF expiringRedis_ready(1,2) restRequest_valid(1,2) r] obtain body rest
    where rest: "sendMessage exampleWorld firstEnv (Some expiringRedis) restRequest = (Status200 body, rest)"
    by blast
  from send_message_ok [OF expiringRedis_ready(1,2) socketRequest_valid(1,2) r'] obtain events sock
    where sock: "send_message exampleWorld firstEnv (Some expiringRedis) socketRequest = (events, sock)"
      and typing: "ToRoom (data_sessionId socketRequest) (BotTyping True) \<in> set events"
    by auto
  note t = saveSession_resets_expiry [of "Some expiringRedis" exampleSession "[]"
      "''2025-09-18T08:00:00.000Z''" rc' expiringRedis exampleWorld firstEnv restRequest body rest
      socketRequest events sock 120 expiringRedis 120]
  from t s have "secondsLeft rc' exampleSession = Some 3600"
    using expiringRedis_ready(3) by auto
  moreover from t rest have "secondsLeft rest exampleSession = Some 3600"
    using expiringRedis_ready(3) restRequest_valid(3) by auto
  moreover from t sock typing have "secondsLeft sock exampleSession = Some 3600"
    using expiringRedis_ready(3) restRequest_valid(3) socketRequest_valid(3) by auto
  ultimately have unset:
    "fst (saveSession (Some expiringRedis) exampleSession [] ''2025-09-18T08:00:00.000Z'') = Inr ()"
    "secondsLeft (snd (saveSession (Some expiringRedis) exampleSession [] ''2025-09-18T08:00:00.000Z''))
       exampleSession = Some 3600"
    "secondsLeft (snd (sendMessage exampleWorld firstEnv (Some expiringRedis) restRequest))
       exampleSession = Some 3600"
    "secondsLeft (snd (send_message exampleWorld firstEnv (Some expiringRedis) socketRequest))
       exampleSession = Some 3600"
    using s rest sock by simp_all
  obtain rc2 where s2: "saveSession (Some shortLivedRedis) exampleSession [] ''2025-09-18T08:00:00.000Z'' =
      (Inr (), rc2)"
    using saveSession_up [OF shortLivedRedis_ready(1,2)] by blast
  from sendMessage_ok [OF shortLivedRedis_ready(1,2) restRequest_valid(1,2) r] obtain body2 rest2
    where rest2: "sendMessage exampleWorld firstEnv (Some shortLivedRedis) restRequest = (Status200 body2, rest2)"
    by blast
  from send_message_ok [OF shortLivedRedis_ready(1,2) socketRequest_valid(1,2) r'] obtain events2 sock2
    where sock2: "send_message exampleWorld firstEnv (Some shortLivedRedis) socketRequest = (events2, sock2)"
      and typing2: "ToRoom (data_sessionId socketRequest) (BotTyping True) \<in> set events2"
    by auto
  note t2 = saveSession_resets_expiry [of "Some shortLivedRedis" exampleSession "[]"
      "''2025-09-18T08:00:00.000Z''" rc2 shortLivedRedis exampleWorld firstEnv restRequest body2 rest2
      socketRequest events2 sock2 120 shortLivedRedis 120]
  from t2 s2 shortLivedRedis_ready(4)
  have "secondsLeft rc2 exampleSession = Some 120"
    "commandsSince (Some shortLivedRedis) rc2 =
       [SETEX (sessionKey exampleSession) 120
          \<lparr>sd_sessionId = exampleSession, sd_messages = [],
           sd_lastUpdated = ''2025-09-18T08:00:00.000Z'', sd_messageCount = 0\<rparr>]"
    by auto
  moreover from t2 rest2 shortLivedRedis_ready(4) have "secondsLeft rest2 exampleSession = Some 120"
    using restRequest_valid(3) by auto
  moreover from t2 sock2 typing2 shortLivedRedis_ready(4) have "secondsLeft sock2 exampleSession = Some 120"
    using restRequest_valid(3) socketRequest_valid(3) by auto
  ultimately have set:
    "fst (saveSession (Some shortLivedRedis) exampleSession [] ''2025-09-18T08:00:00.000Z'') = Inr ()"
    "secondsLeft (snd (saveSession (Some shortLivedRedis) exampleSession [] ''2025-09-18T08:00:00.000Z''))
       exampleSession = Some 120"
    "commandsSince (Some shortLivedRedis)
       (snd (saveSession (Some shortLivedRedis) exampleSession [] ''2025-09-18T08:00:00.000Z'')) =
       [SETEX (sessionKey exampleSession) 120
          \<lparr>sd_sessionId = exampleSession, sd_messages = [],
           sd_lastUpdated = ''2025-09-18T08:00:00.000Z'', sd_messageCount = 0\<rparr>]"
    "secondsLeft (snd (sendMessage exampleWorld firstEnv (Some shortLivedRedis) restRequest))
       exampleSession = Some 120"
    "secondsLeft (snd (send_message exampleWorld firstEnv (Some shortLivedRedis) socketRequest))
       exampleSession = Some 120"
    using s2 rest2 sock2 by simp_all
  from unset set expiringRedis_ready(4,5) shortLivedRedis_ready(4,5) show ?thesis
    by simp
qed

end
